theory Spec2Isabelle
  imports Complex_Main
begin

section \<open>The compliance engine of the nozzle calculator\<close>

text \<open>
  A shallow embedding of the calculation engine of \<^verbatim>\<open>nozzle_calculator.py\<close>
  (lines 8 to 237): the two reference tables, the minimum-thickness resolver, the three
  thickness formulas, the stress and load analysers and the orchestrator
  \<^verbatim>\<open>calculate_asme_compliance\<close>.

  Python floats are modelled as the reals: rounding, overflow and NaN are outside the
  model. What Python does differently from HOL's total functions is written out: a
  division raises \<^verbatim>\<open>ZeroDivisionError\<close> when the divisor is zero, a
  missing dictionary key raises \<^verbatim>\<open>KeyError\<close>, and every
  \<^verbatim>\<open>try/except\<close> of the source is a case distinction on a sum type.
  A Python string is a list of characters; a code point beyond ASCII stands as its
  UTF-8 bytes.
\<close>

subsection \<open>Exceptions, division and string joining\<close>

datatype exn =
    ValueError string
  | ZeroDivisionError
  | KeyError string
  | IndexError

text \<open>
  \<^verbatim>\<open>str(e)\<close>: the message of a \<^verbatim>\<open>ValueError\<close>, the
  text Python gives a float division by zero, and for a \<^verbatim>\<open>KeyError\<close>
  the key in single quotes.
\<close>

fun str_exn :: "exn \<Rightarrow> string" where
  "str_exn (ValueError msg) = msg"
| "str_exn ZeroDivisionError = ''float division by zero''"
| "str_exn (KeyError k) = [CHR 0x27] @ k @ [CHR 0x27]"
| "str_exn IndexError = ''list index out of range''"

definition py_div :: "real \<Rightarrow> real \<Rightarrow> exn + real" where
  "py_div a b = (if b = 0 then Inl ZeroDivisionError else Inr (a / b))"

text \<open>\<^verbatim>\<open>sep.join(parts)\<close>.\<close>

fun join :: "string \<Rightarrow> string list \<Rightarrow> string" where
  "join sep [] = []"
| "join sep [x] = x"
| "join sep (x # y # ys) = x @ sep @ join sep (y # ys)"

subsection \<open>Constants\<close>

definition UG16_MINIMUMS :: "string \<rightharpoonup> real" where
  "UG16_MINIMUMS =
     [''Pressure Vessel (Standard)'' \<mapsto> 1.5,
      ''Unfired Steam Boiler'' \<mapsto> 6.35,
      ''Non-Code Construction'' \<mapsto> 0.0]"

text \<open>
  A row of the pipe table is \<^verbatim>\<open>(nps, dn, od, thickness)\<close>. Four labels
  of the source hold code points beyond ASCII (U+00AC followed by U+00BA or U+03A9);
  they stand here as their UTF-8 bytes.
\<close>

type_synonym ug45_row = "string \<times> nat \<times> real \<times> real"

definition UG45_TABLE :: "ug45_row list" where
  "UG45_TABLE =
     [(''1/8'', 6, 10.29, 1.51), (''1/4'', 8, 13.72, 1.96),
      (''3/8'', 10, 17.12, 2.02), (''1/2'', 15, 21.34, 2.42),
      (''3/4'', 20, 26.67, 2.51), (''1'', 25, 33.40, 2.96),
      (''1'' @ [CHR 0xC2, CHR 0xAC, CHR 0xC2, CHR 0xBA], 32, 42.16, 3.12),
      (''1'' @ [CHR 0xC2, CHR 0xAC, CHR 0xCE, CHR 0xA9], 40, 48.26, 3.22),
      (''2'', 50, 60.33, 3.42),
      (''2'' @ [CHR 0xC2, CHR 0xAC, CHR 0xCE, CHR 0xA9], 65, 73.03, 4.52),
      (''3'', 80, 88.90, 4.80),
      (''3'' @ [CHR 0xC2, CHR 0xAC, CHR 0xCE, CHR 0xA9], 90, 101.60, 5.02),
      (''4'', 100, 114.30, 5.27), (''5'', 125, 141.30, 5.73),
      (''6'', 150, 168.28, 6.22), (''8'', 200, 219.08, 7.16),
      (''10'', 250, 273.05, 8.11), (''12'', 300, 323.85, 8.34)]"

definition ALLOWABLE_STRESS_FACTOR :: real where
  "ALLOWABLE_STRESS_FACTOR = 1.5"

definition STRESS_INTENSITY_FACTOR :: real where
  "STRESS_INTENSITY_FACTOR = 3.0"

subsection \<open>Helper functions\<close>

text \<open>
  \<^verbatim>\<open>get_ug16_min_thickness\<close> (lines 30 to 47). The list
  \<^verbatim>\<open>ref_parts\<close> grows by one \<^verbatim>\<open>append\<close> per test, in
  the order of the source.
\<close>

definition get_ug16_min_thickness :: "string \<Rightarrow> string \<Rightarrow> bool \<Rightarrow> real \<Rightarrow> real \<times> string" where
  "get_ug16_min_thickness equipment_type service_type custom_min_enabled custom_min =
     (let equipment_min = (case UG16_MINIMUMS equipment_type of None \<Rightarrow> 0.0 | Some v \<Rightarrow> v);
          service_min = (if service_type \<in> set [''Water'', ''Compressed Air'', ''Steam'']
                         then 2.5 else 0.0);
          custom = (if custom_min_enabled then custom_min else 0.0);
          min_thickness = max (max equipment_min service_min) custom;
          ref_parts = [];
          ref_parts = (if equipment_min > 0
                       then ref_parts @ [''UG-16 for '' @ equipment_type] else ref_parts);
          ref_parts = (if service_min > 0
                       then ref_parts @ [''UG-16(b) for '' @ service_type] else ref_parts);
          ref_parts = (if custom_min_enabled \<and> custom > 0
                       then ref_parts @ [''Custom specified minimum''] else ref_parts);
          ref = (if ref_parts \<noteq> [] then join '' + '' ref_parts else ''No UG-16 requirement'')
      in (min_thickness, ref))"

subsection \<open>Calculation engine: the thickness formulas\<close>

definition calculate_shell_thickness :: "real \<Rightarrow> real \<Rightarrow> real \<Rightarrow> real \<Rightarrow> exn + real" where
  "calculate_shell_thickness P D S E = py_div (P * D) (2 * S * E - 1.2 * P)"

definition calculate_head_thickness :: "real \<Rightarrow> real \<Rightarrow> real \<Rightarrow> real \<Rightarrow> string \<Rightarrow> exn + real" where
  "calculate_head_thickness P D S E head_type =
     (if head_type = ''Hemispherical'' then py_div (P * D) (4 * S * E - 0.4 * P)
      else if head_type = ''Ellipsoidal'' then py_div (P * D) (2 * S * E - 0.2 * P)
      else if head_type = ''Torispherical'' then py_div (0.885 * P * D) (S * E - 0.1 * P)
      else Inl (ValueError ''Invalid head type''))"

definition calculate_nozzle_thickness :: "real \<Rightarrow> real \<Rightarrow> real \<Rightarrow> real \<Rightarrow> exn + real" where
  "calculate_nozzle_thickness P d S E = py_div (P * d) (2 * S * E - 1.2 * P)"

subsection \<open>The input and the report\<close>

text \<open>
  The input dictionary maps field names to Python values. The orchestrator first tests
  which required keys are present; every later step reads the fields as numbers, strings
  and one boolean, so a complete input is read into the record \<open>inputs\<close>.
\<close>

datatype val = PyFloat real | PyStr string | PyBool bool

record inputs =
  P_int :: real
  D :: real
  d :: real
  t :: real
  tn :: real
  th_head :: real
  CA :: real
  nozzle_od :: real
  E_shell :: real
  E_head :: real
  E_nozzle :: real
  S_shell :: real
  S_head :: real
  S_nozzle :: real
  equipment_type :: string
  head_type :: string
  Fx :: real
  Fy :: real
  Fz :: real
  Mx :: real
  My :: real
  Mz :: real
  service_type :: string
  custom_min_enabled :: bool
  custom_min :: real

definition required_keys :: "string list" where
  "required_keys =
     [''P_int'', ''D'', ''d'', ''t'', ''tn'', ''th_head'', ''CA'',
      ''nozzle_od'', ''E_shell'', ''E_head'', ''E_nozzle'',
      ''S_shell'', ''S_head'', ''S_nozzle'', ''equipment_type'',
      ''head_type'', ''Fx'', ''Fy'', ''Fz'', ''Mx'', ''My'', ''Mz'',
      ''service_type'', ''custom_min_enabled'', ''custom_min'']"

definition is_float :: "val option \<Rightarrow> bool" where
  "is_float v = (case v of Some (PyFloat x) \<Rightarrow> True | _ \<Rightarrow> False)"

definition is_str :: "val option \<Rightarrow> bool" where
  "is_str v = (case v of Some (PyStr s) \<Rightarrow> True | _ \<Rightarrow> False)"

definition is_bool :: "val option \<Rightarrow> bool" where
  "is_bool v = (case v of Some (PyBool b) \<Rightarrow> True | _ \<Rightarrow> False)"

definition float_of :: "val option \<Rightarrow> real" where
  "float_of v = (case v of Some (PyFloat x) \<Rightarrow> x | _ \<Rightarrow> 0)"

definition str_of :: "val option \<Rightarrow> string" where
  "str_of v = (case v of Some (PyStr s) \<Rightarrow> s | _ \<Rightarrow> [])"

definition bool_of :: "val option \<Rightarrow> bool" where
  "bool_of v = (case v of Some (PyBool b) \<Rightarrow> b | _ \<Rightarrow> False)"

definition float_keys :: "string list" where
  "float_keys =
     [''P_int'', ''D'', ''d'', ''t'', ''tn'', ''th_head'', ''CA'',
      ''nozzle_od'', ''E_shell'', ''E_head'', ''E_nozzle'',
      ''S_shell'', ''S_head'', ''S_nozzle'',
      ''Fx'', ''Fy'', ''Fz'', ''Mx'', ''My'', ''Mz'', ''custom_min'']"

definition str_keys :: "string list" where
  "str_keys = [''equipment_type'', ''head_type'', ''service_type'']"

text \<open>
  \<open>read_inputs m\<close> is the record of a dictionary whose 25 required fields are all
  present with values of their types (the number fields float, the three categories
  strings, the flag a boolean), and \<open>None\<close> for any other dictionary. The defaults
  of \<open>float_of\<close>, \<open>str_of\<close> and \<open>bool_of\<close> are never read: the test in
  front excludes them.
\<close>

definition read_inputs :: "(string \<rightharpoonup> val) \<Rightarrow> inputs option" where
  "read_inputs m =
     (if list_all (\<lambda>k. is_float (m k)) float_keys \<and> list_all (\<lambda>k. is_str (m k)) str_keys
         \<and> is_bool (m ''custom_min_enabled'')
      then Some \<lparr>P_int = float_of (m ''P_int''), D = float_of (m ''D''),
                 d = float_of (m ''d''), t = float_of (m ''t''), tn = float_of (m ''tn''),
                 th_head = float_of (m ''th_head''), CA = float_of (m ''CA''),
                 nozzle_od = float_of (m ''nozzle_od''), E_shell = float_of (m ''E_shell''),
                 E_head = float_of (m ''E_head''), E_nozzle = float_of (m ''E_nozzle''),
                 S_shell = float_of (m ''S_shell''), S_head = float_of (m ''S_head''),
                 S_nozzle = float_of (m ''S_nozzle''),
                 equipment_type = str_of (m ''equipment_type''),
                 head_type = str_of (m ''head_type''),
                 Fx = float_of (m ''Fx''), Fy = float_of (m ''Fy''), Fz = float_of (m ''Fz''),
                 Mx = float_of (m ''Mx''), My = float_of (m ''My''), Mz = float_of (m ''Mz''),
                 service_type = str_of (m ''service_type''),
                 custom_min_enabled = bool_of (m ''custom_min_enabled''),
                 custom_min = float_of (m ''custom_min'')\<rparr>
      else None)"

text \<open>
  The dictionary \<^verbatim>\<open>main\<close> builds from the form (lines 425 to 435).
\<close>

definition dict_of :: "inputs \<Rightarrow> (string \<rightharpoonup> val)" where
  "dict_of i =
     [''P_int'' \<mapsto> PyFloat (P_int i), ''D'' \<mapsto> PyFloat (D i), ''t'' \<mapsto> PyFloat (t i),
      ''th_head'' \<mapsto> PyFloat (th_head i), ''d'' \<mapsto> PyFloat (d i), ''tn'' \<mapsto> PyFloat (tn i),
      ''nozzle_od'' \<mapsto> PyFloat (nozzle_od i), ''CA'' \<mapsto> PyFloat (CA i),
      ''S_shell'' \<mapsto> PyFloat (S_shell i), ''E_shell'' \<mapsto> PyFloat (E_shell i),
      ''S_head'' \<mapsto> PyFloat (S_head i), ''E_head'' \<mapsto> PyFloat (E_head i),
      ''S_nozzle'' \<mapsto> PyFloat (S_nozzle i), ''E_nozzle'' \<mapsto> PyFloat (E_nozzle i),
      ''equipment_type'' \<mapsto> PyStr (equipment_type i),
      ''service_type'' \<mapsto> PyStr (service_type i),
      ''custom_min_enabled'' \<mapsto> PyBool (custom_min_enabled i),
      ''custom_min'' \<mapsto> PyFloat (custom_min i),
      ''head_type'' \<mapsto> PyStr (head_type i),
      ''Fx'' \<mapsto> PyFloat (Fx i), ''Fy'' \<mapsto> PyFloat (Fy i), ''Fz'' \<mapsto> PyFloat (Fz i),
      ''Mx'' \<mapsto> PyFloat (Mx i), ''My'' \<mapsto> PyFloat (My i), ''Mz'' \<mapsto> PyFloat (Mz i)]"

text \<open>
  The report. An empty dictionary \<^verbatim>\<open>{}\<close> is \<open>None\<close> (for a section
  written in one assignment) or the empty map (for a section written key by key); the key
  \<^verbatim>\<open>compliant\<close> exists only once line 223 has run.
\<close>

record thickness =
  required :: real
  actual :: real

record check = thickness +
  status :: bool

record ug45_check = check +
  matched_size :: string

record ug16_section =
  shell :: check
  head :: check
  nozzle :: check
  reference :: string

record loads_section =
  axial :: real
  bending :: real
  shear :: real
  equivalent :: real
  allowable :: real
  status :: bool

record results =
  steps :: "string list"
  warnings :: "string list"
  errors :: "string list"
  ug16 :: "ug16_section option"
  ug37 :: "string \<rightharpoonup> real"
  ug45 :: "ug45_check option"
  head :: "string \<rightharpoonup> real"
  stresses :: "string \<rightharpoonup> real"
  loads :: "loads_section option"
  calculations :: "string \<rightharpoonup> thickness"
  compliant :: "bool option"

definition init_results :: results where
  "init_results =
     \<lparr>steps = [], warnings = [], errors = [],
      ug16 = None, ug37 = Map.empty, ug45 = None, head = Map.empty,
      stresses = Map.empty, loads = None, calculations = Map.empty,
      compliant = None\<rparr>"

subsection \<open>Stress and load analysis\<close>

text \<open>
  \<^verbatim>\<open>perform_stress_analysis\<close> (lines 69 to 94). The body of the
  \<^verbatim>\<open>try\<close> computes the three stresses in order; each division raises
  when its divisor is zero.
\<close>

definition stress_try :: "inputs \<Rightarrow> exn + (string \<rightharpoonup> real)" where
  "stress_try inputs =
     (let R = D inputs / 2 in
      case py_div (P_int inputs * R) ((t inputs - CA inputs) * E_shell inputs) of
        Inl e \<Rightarrow> Inl e
      | Inr s_shell \<Rightarrow>
     (case py_div (P_int inputs * D inputs) (4 * (th_head inputs - CA inputs) * E_head inputs) of
        Inl e \<Rightarrow> Inl e
      | Inr s_head \<Rightarrow>
     (case py_div (P_int inputs * (d inputs / 2)) ((tn inputs - CA inputs) * E_nozzle inputs) of
        Inl e \<Rightarrow> Inl e
      | Inr s_nozzle \<Rightarrow>
          Inr [''shell'' \<mapsto> s_shell, ''head'' \<mapsto> s_head, ''nozzle'' \<mapsto> s_nozzle])))"

text \<open>
  The handler runs \<^verbatim>\<open>results['errors'].append(...)\<close> on the analyser's
  own dictionary, which was created with the single key \<^verbatim>\<open>stresses\<close>:
  the lookup of \<^verbatim>\<open>errors\<close> raises \<^verbatim>\<open>KeyError\<close> before
  anything is appended, and that exception leaves the function. On success the function
  returns the dictionary, whose one entry is the map of stresses.
\<close>

definition perform_stress_analysis :: "inputs \<Rightarrow> exn + (string \<rightharpoonup> real)" where
  "perform_stress_analysis inputs =
     (case stress_try inputs of
        Inl e \<Rightarrow> Inl (KeyError ''errors'')
      | Inr s \<Rightarrow> Inr s)"

text \<open>
  \<^verbatim>\<open>perform_load_analysis\<close> (lines 96 to 125), with the same handler on a
  dictionary whose single key is \<^verbatim>\<open>loads\<close>. The sums of squares under
  \<^verbatim>\<open>math.sqrt\<close> are never negative, so the square roots do not raise.
\<close>

definition load_try :: "inputs \<Rightarrow> exn + loads_section" where
  "load_try inputs =
     (let dn = d inputs;
          tn' = tn inputs - CA inputs in
      case py_div (Fz inputs) (pi * dn * tn') of
        Inl e \<Rightarrow> Inl e
      | Inr axial_stress \<Rightarrow>
     (case py_div (4 * sqrt ((Mx inputs)\<^sup>2 + (My inputs)\<^sup>2)) (pi * dn\<^sup>2 * tn') of
        Inl e \<Rightarrow> Inl e
      | Inr bending_stress \<Rightarrow>
     (case py_div (sqrt ((Fx inputs)\<^sup>2 + (Fy inputs)\<^sup>2)) (pi * dn * tn') of
        Inl e \<Rightarrow> Inl e
      | Inr shear_stress \<Rightarrow>
          (let equivalent_stress = sqrt ((axial_stress + bending_stress)\<^sup>2 + 3 * shear_stress\<^sup>2) in
           Inr \<lparr>axial = axial_stress,
                bending = bending_stress,
                shear = shear_stress,
                equivalent = equivalent_stress,
                allowable = S_nozzle inputs * ALLOWABLE_STRESS_FACTOR,
                status = (equivalent_stress \<le> S_nozzle inputs * ALLOWABLE_STRESS_FACTOR)\<rparr>))))"

definition perform_load_analysis :: "inputs \<Rightarrow> exn + loads_section" where
  "perform_load_analysis inputs =
     (case load_try inputs of
        Inl e \<Rightarrow> Inl (KeyError ''errors'')
      | Inr l \<Rightarrow> Inr l)"

subsection \<open>The orchestrator\<close>

text \<open>
  \<^verbatim>\<open>calculate_asme_compliance\<close> (lines 127 to 237) is one
  \<^verbatim>\<open>try\<close> block of statements that write into \<^verbatim>\<open>results\<close>.
  Each statement is a step: it returns the updated report, or the exception it raises, in
  which case the report keeps what the earlier statements wrote.
\<close>

type_synonym step = "results \<Rightarrow> exn + results"

definition shell_step :: "inputs \<Rightarrow> step" where
  "shell_step inputs results =
     (case calculate_shell_thickness (P_int inputs) (D inputs) (S_shell inputs) (E_shell inputs) of
        Inl e \<Rightarrow> Inl e
      | Inr req \<Rightarrow>
          Inr (results\<lparr>calculations := (calculations results)
                 (''shell'' \<mapsto> \<lparr>required = req, actual = t inputs - CA inputs\<rparr>)\<rparr>))"

definition head_step :: "inputs \<Rightarrow> step" where
  "head_step inputs results =
     (case calculate_head_thickness (P_int inputs) (D inputs) (S_head inputs) (E_head inputs)
             (head_type inputs) of
        Inl e \<Rightarrow> Inl e
      | Inr req \<Rightarrow>
          Inr (results\<lparr>calculations := (calculations results)
                 (''head'' \<mapsto> \<lparr>required = req, actual = th_head inputs - CA inputs\<rparr>)\<rparr>))"

definition nozzle_step :: "inputs \<Rightarrow> step" where
  "nozzle_step inputs results =
     (case calculate_nozzle_thickness (P_int inputs) (d inputs) (S_nozzle inputs) (E_nozzle inputs) of
        Inl e \<Rightarrow> Inl e
      | Inr req \<Rightarrow>
          Inr (results\<lparr>calculations := (calculations results)
                 (''nozzle'' \<mapsto> \<lparr>required = req, actual = tn inputs - CA inputs\<rparr>)\<rparr>))"

definition ug16_step :: "inputs \<Rightarrow> step" where
  "ug16_step inputs results =
     (let (min_thickness, ref) =
            get_ug16_min_thickness (equipment_type inputs) (service_type inputs)
              (custom_min_enabled inputs) (custom_min inputs) in
      Inr (results\<lparr>ug16 := Some
             \<lparr>shell = \<lparr>required = min_thickness, actual = t inputs - CA inputs,
                        check.status = (t inputs - CA inputs \<ge> min_thickness)\<rparr>,
              ug16_section.head =
                \<lparr>required = min_thickness, actual = th_head inputs - CA inputs,
                 check.status = (th_head inputs - CA inputs \<ge> min_thickness)\<rparr>,
              nozzle = \<lparr>required = min_thickness, actual = tn inputs - CA inputs,
                         check.status = (tn inputs - CA inputs \<ge> min_thickness)\<rparr>,
              reference = ref\<rparr>\<rparr>))"

text \<open>
  The \<^verbatim>\<open>for ... else\<close> loop over the sorted table (lines 204 to 209). The
  third argument holds the loop variables as the last iteration bound them (\<open>None\<close>
  before the first iteration); the result is \<^verbatim>\<open>tn_table\<close> when the loop
  left by \<^verbatim>\<open>break\<close>, and the loop variables after the loop.
\<close>

fun ug45_loop :: "ug45_row list \<Rightarrow> real \<Rightarrow> real \<Rightarrow> ug45_row option \<Rightarrow> real option \<times> ug45_row option" where
  "ug45_loop [] target ca vars = (None, vars)"
| "ug45_loop ((nps, dn, od, thickness) # rest) target ca vars =
     (if od \<ge> target then (Some (thickness + ca), Some (nps, dn, od, thickness))
      else ug45_loop rest target ca (Some (nps, dn, od, thickness)))"

definition sorted_table :: "ug45_row list" where
  "sorted_table = sort_key (\<lambda>x. fst (snd (snd x))) UG45_TABLE"

text \<open>
  Lines 203 to 216. The \<^verbatim>\<open>else\<close> branch of the loop reads
  \<^verbatim>\<open>sorted_table[-1][3]\<close>; the label is
  \<^verbatim>\<open>f"NPS {nps}" if 'nps' in locals() else "NPS 12+"\<close>, and
  \<^verbatim>\<open>nps\<close> is a local variable as soon as one iteration has run.
\<close>

definition ug45_step :: "inputs \<Rightarrow> step" where
  "ug45_step inputs results =
     (case ug45_loop sorted_table (nozzle_od inputs) (CA inputs) None of
        (found, vars) \<Rightarrow>
     (case (case found of
              Some v \<Rightarrow> Inr v
            | None \<Rightarrow> (if sorted_table = [] then Inl IndexError
                        else Inr (snd (snd (snd (last sorted_table))) + CA inputs))) of
        Inl e \<Rightarrow> Inl e
      | Inr tn_table \<Rightarrow>
     (case calculations results ''nozzle'' of
        None \<Rightarrow> Inl (KeyError ''nozzle'')
      | Some c \<Rightarrow>
          Inr (results\<lparr>ug45 := Some
                 \<lparr>required = max (required c) tn_table,
                  actual = tn inputs,
                  check.status = (tn inputs \<ge> max (required c) tn_table),
                  matched_size = (case vars of
                                    Some (nps, dn, od, thickness) \<Rightarrow> ''NPS '' @ nps
                                  | None \<Rightarrow> ''NPS 12+'')\<rparr>\<rparr>))))"

definition stress_step :: "inputs \<Rightarrow> step" where
  "stress_step inputs results =
     (case perform_stress_analysis inputs of
        Inl e \<Rightarrow> Inl e
      | Inr s \<Rightarrow> Inr (results\<lparr>stresses := s\<rparr>))"

definition load_step :: "inputs \<Rightarrow> step" where
  "load_step inputs results =
     (case perform_load_analysis inputs of
        Inl e \<Rightarrow> Inl e
      | Inr l \<Rightarrow> Inr (results\<lparr>loads := Some l\<rparr>))"

text \<open>
  Lines 223 to 232: the list given to \<^verbatim>\<open>all\<close> is built in full, so every
  subscript is evaluated; only the load status has a default.
\<close>

definition final_compliance :: "inputs \<Rightarrow> results \<Rightarrow> exn + bool" where
  "final_compliance inputs results =
     (case ug16 results of
        None \<Rightarrow> Inl (KeyError ''shell'')
      | Some u \<Rightarrow>
     (case ug45 results of
        None \<Rightarrow> Inl (KeyError ''status'')
      | Some n \<Rightarrow>
     (case stresses results ''shell'' of
        None \<Rightarrow> Inl (KeyError ''shell'')
      | Some s_shell \<Rightarrow>
     (case stresses results ''head'' of
        None \<Rightarrow> Inl (KeyError ''head'')
      | Some s_head \<Rightarrow>
     (case stresses results ''nozzle'' of
        None \<Rightarrow> Inl (KeyError ''nozzle'')
      | Some s_nozzle \<Rightarrow>
          Inr (list_all (\<lambda>b. b)
                 [check.status (shell u),
                  check.status (ug16_section.head u),
                  check.status (nozzle u),
                  check.status n,
                  s_shell \<le> S_shell inputs,
                  s_head \<le> S_head inputs,
                  s_nozzle \<le> S_nozzle inputs,
                  (case loads results of
                     None \<Rightarrow> False
                   | Some l \<Rightarrow> loads_section.status l)]))))))"

definition compliant_step :: "inputs \<Rightarrow> step" where
  "compliant_step inputs results =
     (case final_compliance inputs results of
        Inl e \<Rightarrow> Inl e
      | Inr b \<Rightarrow> Inr (results\<lparr>compliant := Some b\<rparr>))"

text \<open>
  Running the statements in order: the first exception ends the \<^verbatim>\<open>try\<close>
  block and reaches the handler together with the report as it stands.
\<close>

fun run_steps :: "step list \<Rightarrow> results \<Rightarrow> exn option \<times> results" where
  "run_steps [] results = (None, results)"
| "run_steps (s # ss) results =
     (case s results of
        Inl e \<Rightarrow> (Some e, results)
      | Inr results' \<Rightarrow> run_steps ss results')"

text \<open>The handler of line 234.\<close>

definition except_handler :: "exn option \<times> results \<Rightarrow> results" where
  "except_handler x =
     (case x of
        (None, results) \<Rightarrow> results
      | (Some e, results) \<Rightarrow>
          results\<lparr>errors := errors results @ [''Calculation error: '' @ str_exn e]\<rparr>)"

text \<open>The statements after the validation, for a complete input.\<close>

definition compliance_steps :: "inputs \<Rightarrow> results" where
  "compliance_steps inputs =
     except_handler
       (run_steps
          [shell_step inputs, head_step inputs, nozzle_step inputs,
           ug16_step inputs, ug45_step inputs,
           stress_step inputs, load_step inputs,
           compliant_step inputs]
          init_results)"

text \<open>
  The entry point. The presence test reads no value, so it is defined on every
  dictionary. The result is \<open>None\<close> only for a dictionary that has all required keys
  but a value of another type than the field's: such inputs are outside the model.
\<close>

definition calculate_asme_compliance :: "(string \<rightharpoonup> val) \<Rightarrow> results option" where
  "calculate_asme_compliance inputs =
     (let missing = filter (\<lambda>key. inputs key = None) required_keys in
      if missing \<noteq> []
      then Some (except_handler
                   (Some (ValueError (''Missing inputs: '' @ join '', '' missing)), init_results))
      else map_option compliance_steps (read_inputs inputs))"

subsection \<open>Conditions and sample inputs of the statements\<close>

text \<open>
  The denominators of the three thickness formulas on an input record; the head formula
  has one only for the three head types it knows.
\<close>

definition shell_den :: "inputs \<Rightarrow> real" where
  "shell_den i = 2 * S_shell i * E_shell i - 1.2 * P_int i"

definition head_den :: "inputs \<Rightarrow> real option" where
  "head_den i =
     (if head_type i = ''Hemispherical'' then Some (4 * S_head i * E_head i - 0.4 * P_int i)
      else if head_type i = ''Ellipsoidal'' then Some (2 * S_head i * E_head i - 0.2 * P_int i)
      else if head_type i = ''Torispherical'' then Some (S_head i * E_head i - 0.1 * P_int i)
      else None)"

definition nozzle_den :: "inputs \<Rightarrow> real" where
  "nozzle_den i = 2 * S_nozzle i * E_nozzle i - 1.2 * P_int i"

text \<open>
  No thickness formula raises: the head type is known and no denominator is zero.
\<close>

definition thickness_ok :: "inputs \<Rightarrow> bool" where
  "thickness_ok i =
     (shell_den i \<noteq> 0 \<and> (case head_den i of None \<Rightarrow> False | Some x \<Rightarrow> x \<noteq> 0)
      \<and> nozzle_den i \<noteq> 0)"

text \<open>
  The thickness section and the stress section of the report in closed form, with HOL's
  division: they are what the steps write when no division raises.
\<close>

definition head_required :: "inputs \<Rightarrow> real" where
  "head_required i =
     (if head_type i = ''Hemispherical''
      then P_int i * D i / (4 * S_head i * E_head i - 0.4 * P_int i)
      else if head_type i = ''Ellipsoidal''
      then P_int i * D i / (2 * S_head i * E_head i - 0.2 * P_int i)
      else 0.885 * P_int i * D i / (S_head i * E_head i - 0.1 * P_int i))"

definition calculations_of :: "inputs \<Rightarrow> (string \<rightharpoonup> thickness)" where
  "calculations_of i =
     [''shell'' \<mapsto> \<lparr>required = P_int i * D i / shell_den i, actual = t i - CA i\<rparr>,
      ''head'' \<mapsto> \<lparr>required = head_required i, actual = th_head i - CA i\<rparr>,
      ''nozzle'' \<mapsto> \<lparr>required = P_int i * d i / nozzle_den i, actual = tn i - CA i\<rparr>]"

definition stresses_of :: "inputs \<Rightarrow> (string \<rightharpoonup> real)" where
  "stresses_of i =
     [''shell'' \<mapsto> P_int i * (D i / 2) / ((t i - CA i) * E_shell i),
      ''head'' \<mapsto> P_int i * D i / (4 * (th_head i - CA i) * E_head i),
      ''nozzle'' \<mapsto> P_int i * (d i / 2) / ((tn i - CA i) * E_nozzle i)]"

text \<open>No divisor of the stress analyser, and none of the load analyser, is zero.\<close>

definition stress_ok :: "inputs \<Rightarrow> bool" where
  "stress_ok i =
     ((t i - CA i) * E_shell i \<noteq> 0 \<and> 4 * (th_head i - CA i) * E_head i \<noteq> 0
      \<and> (tn i - CA i) * E_nozzle i \<noteq> 0)"

definition load_ok :: "inputs \<Rightarrow> bool" where
  "load_ok i = (d i \<noteq> 0 \<and> tn i - CA i \<noteq> 0)"

text \<open>The label, the outer diameter and the standard wall thickness of a table row.\<close>

definition nps_of :: "ug45_row \<Rightarrow> string" where
  "nps_of row = fst row"

definition od_of :: "ug45_row \<Rightarrow> real" where
  "od_of row = fst (snd (snd row))"

definition thickness_of :: "ug45_row \<Rightarrow> real" where
  "thickness_of row = snd (snd (snd row))"

text \<open>
  The sample input: the default values of the form (lines 388 to 420), all loads zero.
\<close>

definition example_inputs :: inputs where
  "example_inputs =
     \<lparr>P_int = 2.0, D = 1000, d = 200, t = 12, tn = 10, th_head = 12, CA = 1.5,
      nozzle_od = 114.3, E_shell = 1, E_head = 1, E_nozzle = 1,
      S_shell = 138, S_head = 138, S_nozzle = 118,
      equipment_type = ''Pressure Vessel (Standard)'', head_type = ''Ellipsoidal'',
      Fx = 0, Fy = 0, Fz = 0, Mx = 0, My = 0, Mz = 0,
      service_type = ''Water'', custom_min_enabled = False, custom_min = 2.5\<rparr>"

section \<open>Properties\<close>

subsection \<open>The minimum-thickness resolver\<close>

text \<open>The lookup in the table of minimums, and the list of clauses, in closed form.\<close>

lemma equipment_min_eq:
  "(case UG16_MINIMUMS equip of None \<Rightarrow> 0.0 | Some v \<Rightarrow> v) =
     (if equip = ''Pressure Vessel (Standard)'' then 1.5
      else if equip = ''Unfired Steam Boiler'' then 6.35 else (0::real))"
  by (simp add: UG16_MINIMUMS_def)

lemma ref_parts_eq:
  "(if (a::real) > 0 then [] @ [x] else []) = map snd (filter (\<lambda>c. fst c > 0) [(a, x)])"
  by simp

lemma clauses_eq:
  fixes a b c :: real
  shows "(let ref_parts = [];
       ref_parts = (if a > 0 then ref_parts @ [x] else ref_parts);
       ref_parts = (if b > 0 then ref_parts @ [y] else ref_parts);
       ref_parts = (if c > 0 then ref_parts @ [z] else ref_parts) in ref_parts)
   = map snd (filter (\<lambda>c. fst c > 0) [(a, x), (b, y), (c, z)])"
  by (simp add: Let_def)

lemma Max3: "Max {a, b, c :: real} = max (max a b) c"
  by (simp add: max.assoc)

text \<open>
  Claim C8. For every equipment category, service category, override flag and override
  value, the resolver returns the maximum of the equipment minimum (1.5, 6.35 or 0.0), the
  service minimum (2.5 for water, compressed air or steam, 0.0 otherwise) and the override
  value (0.0 when the flag is not set). Its justification joins with \<open>'' + ''\<close>, in the
  order equipment, service, override, exactly the clauses whose value is strictly positive,
  and is the sentinel \<open>''No UG-16 requirement''\<close> when there is none.
\<close>

theorem ug16_resolved_minimum:
  "get_ug16_min_thickness equip service flag override =
     (let emin = (if equip = ''Pressure Vessel (Standard)'' then 1.5
                  else if equip = ''Unfired Steam Boiler'' then 6.35 else 0);
          smin = (if service = ''Water'' \<or> service = ''Compressed Air'' \<or> service = ''Steam''
                  then 2.5 else 0);
          ov = (if flag then override else 0);
          clauses = map snd (filter (\<lambda>c. fst c > 0)
                      [(emin, ''UG-16 for '' @ equip),
                       (smin, ''UG-16(b) for '' @ service),
                       (ov, ''Custom specified minimum'')])
      in (Max {emin, smin, ov},
          if clauses = [] then ''No UG-16 requirement'' else join '' + '' clauses))"
proof -
  define emin :: real where
    "emin = (if equip = ''Pressure Vessel (Standard)'' then 1.5
             else if equip = ''Unfired Steam Boiler'' then 6.35 else 0)"
  define smin :: real where
    "smin = (if service = ''Water'' \<or> service = ''Compressed Air'' \<or> service = ''Steam''
             then 2.5 else 0)"
  define ov :: real where "ov = (if flag then override else 0)"
  define clauses where
    "clauses = map snd (filter (\<lambda>c. fst c > 0)
                 [(emin, ''UG-16 for '' @ equip),
                  (smin, ''UG-16(b) for '' @ service),
                  (ov, ''Custom specified minimum'')])"
  have e: "(case UG16_MINIMUMS equip of None \<Rightarrow> 0.0 | Some v \<Rightarrow> v) = emin"
    by (simp add: emin_def equipment_min_eq)
  have s: "(if service \<in> set [''Water'', ''Compressed Air'', ''Steam''] then 2.5 else 0.0) = smin"
    by (simp add: smin_def)
  have o: "(if flag then override else 0.0) = ov"
    by (simp add: ov_def)
  have c: "(flag \<and> 0 < ov) = (0 < ov)"
    unfolding ov_def by simp
  have parts:
    "(let ref_parts = [];
          ref_parts = (if emin > 0 then ref_parts @ [''UG-16 for '' @ equip] else ref_parts);
          ref_parts = (if smin > 0 then ref_parts @ [''UG-16(b) for '' @ service] else ref_parts);
          ref_parts = (if ov > 0 then ref_parts @ [''Custom specified minimum''] else ref_parts)
      in ref_parts) = clauses"
    unfolding clauses_def by (rule clauses_eq)
  have "get_ug16_min_thickness equip service flag override =
      (max (max emin smin) ov,
       let ref_parts = [];
          ref_parts = (if emin > 0 then ref_parts @ [''UG-16 for '' @ equip] else ref_parts);
          ref_parts = (if smin > 0 then ref_parts @ [''UG-16(b) for '' @ service] else ref_parts);
          ref_parts = (if ov > 0 then ref_parts @ [''Custom specified minimum''] else ref_parts)
       in if ref_parts \<noteq> [] then join '' + '' ref_parts else ''No UG-16 requirement'')"
    unfolding get_ug16_min_thickness_def e s o
    by (simp only: Let_def c)
  also have "\<dots> = (max (max emin smin) ov,
       if clauses \<noteq> [] then join '' + '' clauses else ''No UG-16 requirement'')"
    using parts by (simp only: Let_def)
  also have "\<dots> = (Max {emin, smin, ov},
       if clauses = [] then ''No UG-16 requirement'' else join '' + '' clauses)"
    by (simp add: Max3)
  finally show ?thesis
    unfolding emin_def smin_def ov_def clauses_def by (simp only: Let_def)
qed


theorem ug16_resolved_minimum_witness:
  "get_ug16_min_thickness ''Unfired Steam Boiler'' ''Water'' False 0 =
     (6.35, ''UG-16 for Unfired Steam Boiler + UG-16(b) for Water'')
   \<and> get_ug16_min_thickness ''Non-Code Construction'' ''Other'' False 2.5 =
     (0, ''No UG-16 requirement'')
   \<and> get_ug16_min_thickness ''Pressure Vessel (Standard)'' ''Steam'' True 3 =
     (3, ''UG-16 for Pressure Vessel (Standard) + UG-16(b) for Steam + Custom specified minimum'')"
  using ug16_resolved_minimum [of "''Unfired Steam Boiler''" "''Water''" False 0]
    ug16_resolved_minimum [of "''Non-Code Construction''" "''Other''" False "2.5"]
    ug16_resolved_minimum [of "''Pressure Vessel (Standard)''" "''Steam''" True 3]
  by (simp add: Let_def)

subsection \<open>The head-thickness formula\<close>

text \<open>
  Claim C9, as amended. For all \<open>P\<close>, \<open>D\<close>, \<open>S\<close>, \<open>E\<close> the head-thickness function
  returns \<open>P D / (4 S E - 0.4 P)\<close> for the type Hemispherical,
  \<open>P D / (2 S E - 0.2 P)\<close> for Ellipsoidal and \<open>0.885 P D / (S E - 0.1 P)\<close> for
  Torispherical whenever that denominator is not zero, raises
  \<^verbatim>\<open>ZeroDivisionError\<close> when it is zero, and fails with the error
  \<open>Invalid head type\<close> for every other head type.
\<close>

theorem head_thickness_by_type:
  "calculate_head_thickness P diam S E ht =
     (if ht = ''Hemispherical''
      then (if 4 * S * E - 0.4 * P = 0 then Inl ZeroDivisionError
            else Inr (P * diam / (4 * S * E - 0.4 * P)))
      else if ht = ''Ellipsoidal''
      then (if 2 * S * E - 0.2 * P = 0 then Inl ZeroDivisionError
            else Inr (P * diam / (2 * S * E - 0.2 * P)))
      else if ht = ''Torispherical''
      then (if S * E - 0.1 * P = 0 then Inl ZeroDivisionError
            else Inr (0.885 * P * diam / (S * E - 0.1 * P)))
      else Inl (ValueError ''Invalid head type''))"
  by (simp add: calculate_head_thickness_def py_div_def)

theorem head_thickness_by_type_witness:
  "calculate_head_thickness 2 1000 138 1 ''Hemispherical'' = Inr (2000 / 551.2)
   \<and> calculate_head_thickness 2 1000 138 1 ''Ellipsoidal'' = Inr (2000 / 275.6)
   \<and> calculate_head_thickness 2 1000 138 1 ''Torispherical'' = Inr (1770 / 137.8)
   \<and> calculate_head_thickness 2 1000 138 1 ''Flat'' = Inl (ValueError ''Invalid head type'')"
  using head_thickness_by_type [of 2 1000 138 1 "''Hemispherical''"]
    head_thickness_by_type [of 2 1000 138 1 "''Ellipsoidal''"]
    head_thickness_by_type [of 2 1000 138 1 "''Torispherical''"]
    head_thickness_by_type [of 2 1000 138 1 "''Flat''"]
  by simp

text \<open>
  The statement of C9 without the condition on the denominator fails: at \<open>P = 100\<close>,
  \<open>S = 10\<close>, \<open>E = 1\<close> (values the form accepts) the three denominators are zero, and the
  function returns no thickness for any of the three head types.
\<close>

theorem head_thickness_zero_denominator:
  "calculate_head_thickness 100 1000 10 1 ''Hemispherical'' = Inl ZeroDivisionError
   \<and> calculate_head_thickness 100 1000 10 1 ''Ellipsoidal'' = Inl ZeroDivisionError
   \<and> calculate_head_thickness 100 1000 10 1 ''Torispherical'' = Inl ZeroDivisionError"
  by (simp add: calculate_head_thickness_def py_div_def)

subsection \<open>The steps of the orchestrator in closed form\<close>

lemma sorted_table_eq: "sorted_table = UG45_TABLE"
  by (simp add: sorted_table_def UG45_TABLE_def)

lemma sorted_table_nonempty: "sorted_table \<noteq> []"
  by (simp add: sorted_table_eq UG45_TABLE_def)

lemma is_float_present: "is_float v \<Longrightarrow> v \<noteq> None"
  by (cases v) (auto simp: is_float_def)

lemma is_str_present: "is_str v \<Longrightarrow> v \<noteq> None"
  by (cases v) (auto simp: is_str_def)

lemma is_bool_present: "is_bool v \<Longrightarrow> v \<noteq> None"
  by (cases v) (auto simp: is_bool_def)

lemma complete_run:
  assumes "read_inputs m = Some i"
  shows "calculate_asme_compliance m = Some (compliance_steps i)"
proof -
  have keys: "list_all (\<lambda>k. m k \<noteq> None) required_keys"
    using assms
    by (auto simp: read_inputs_def required_keys_def float_keys_def str_keys_def
        split: if_splits dest!: is_float_present is_str_present is_bool_present)
  have "filter (\<lambda>key. m key = None) required_keys = []"
    using keys by (simp add: filter_empty_conv list_all_iff)
  then show ?thesis
    using assms by (simp add: calculate_asme_compliance_def)
qed

lemma read_dict_of: "read_inputs (dict_of i) = Some i"
  by (simp add: read_inputs_def dict_of_def float_keys_def str_keys_def
      is_float_def is_str_def is_bool_def float_of_def str_of_def bool_of_def)

lemma shell_step_eq:
  "shell_step i r =
     (if shell_den i = 0 then Inl ZeroDivisionError
      else Inr (r\<lparr>calculations := (calculations r)
             (''shell'' \<mapsto> \<lparr>required = P_int i * D i / shell_den i, actual = t i - CA i\<rparr>)\<rparr>))"
  by (simp add: shell_step_def calculate_shell_thickness_def py_div_def shell_den_def)

lemma head_step_eq:
  "head_step i r =
     (case head_den i of
        None \<Rightarrow> Inl (ValueError ''Invalid head type'')
      | Some x \<Rightarrow>
          if x = 0 then Inl ZeroDivisionError
          else Inr (r\<lparr>calculations := (calculations r)
                 (''head'' \<mapsto> \<lparr>required = head_required i, actual = th_head i - CA i\<rparr>)\<rparr>))"
  by (simp add: head_step_def calculate_head_thickness_def py_div_def head_den_def
      head_required_def)

lemma nozzle_step_eq:
  "nozzle_step i r =
     (if nozzle_den i = 0 then Inl ZeroDivisionError
      else Inr (r\<lparr>calculations := (calculations r)
             (''nozzle'' \<mapsto> \<lparr>required = P_int i * d i / nozzle_den i, actual = tn i - CA i\<rparr>)\<rparr>))"
  by (simp add: nozzle_step_def calculate_nozzle_thickness_def py_div_def nozzle_den_def)

lemma stress_try_eq:
  "stress_try i = (if stress_ok i then Inr (stresses_of i) else Inl ZeroDivisionError)"
  by (simp add: stress_try_def stress_ok_def py_div_def Let_def stresses_of_def)

lemma stress_step_eq:
  "stress_step i r =
     (if stress_ok i then Inr (r\<lparr>stresses := stresses_of i\<rparr>) else Inl (KeyError ''errors''))"
  by (simp add: stress_step_def perform_stress_analysis_def stress_try_eq)

lemma load_try_fail: "\<not> load_ok i \<Longrightarrow> load_try i = Inl ZeroDivisionError"
  by (auto simp: load_try_def load_ok_def py_div_def Let_def)

lemma load_try_ok: "load_ok i \<Longrightarrow> \<exists>l. load_try i = Inr l"
  by (auto simp: load_try_def load_ok_def py_div_def Let_def)

lemma load_step_eq:
  "load_step i r =
     (if load_ok i then Inr (r\<lparr>loads := Some (projr (load_try i))\<rparr>)
      else Inl (KeyError ''errors''))"
  using load_try_fail [of i] load_try_ok [of i]
  by (auto simp: load_step_def perform_load_analysis_def)

lemma init_fields:
  "calculations init_results = Map.empty" "ug16 init_results = None"
  "ug45 init_results = None" "stresses init_results = Map.empty"
  "loads init_results = None" "compliant init_results = None"
  "errors init_results = []"
  by (simp_all add: init_results_def)

lemma calculations_of_nozzle:
  "calculations_of i ''nozzle'' =
     Some \<lparr>required = P_int i * d i / nozzle_den i, actual = tn i - CA i\<rparr>"
  by (simp add: calculations_of_def)

lemma stresses_of_keys:
  "stresses_of i ''shell'' = Some (P_int i * (D i / 2) / ((t i - CA i) * E_shell i))"
  "stresses_of i ''head'' = Some (P_int i * D i / (4 * (th_head i - CA i) * E_head i))"
  "stresses_of i ''nozzle'' = Some (P_int i * (d i / 2) / ((tn i - CA i) * E_nozzle i))"
  by (simp_all add: stresses_of_def)

subsection \<open>The scan of the pipe table\<close>

lemma ug45_loop_found:
  assumes "k < length xs" and "od_of (xs ! k) \<ge> target"
    and "\<forall>j<k. od_of (xs ! j) < target"
  shows "ug45_loop xs target ca vars = (Some (thickness_of (xs ! k) + ca), Some (xs ! k))"
  using assms
proof (induction xs arbitrary: k vars)
  case Nil
  then show ?case by simp
next
  case (Cons x xs)
  obtain nps dn od thk where x: "x = (nps, dn, od, thk)"
    by (cases x) auto
  show ?case
  proof (cases k)
    case 0
    with Cons.prems x show ?thesis
      by (simp add: od_of_def thickness_of_def)
  next
    case (Suc k')
    from Cons.prems(3) Suc have "od_of ((x # xs) ! 0) < target"
      by blast
    then have lt: "\<not> od \<ge> target"
      using x by (simp add: od_of_def)
    have "\<forall>j<k'. od_of (xs ! j) < target"
      using Cons.prems(3) Suc by auto
    with Cons.IH [of k' "Some (nps, dn, od, thk)"] Cons.prems Suc
    have "ug45_loop xs target ca (Some (nps, dn, od, thk)) =
      (Some (thickness_of (xs ! k') + ca), Some (xs ! k'))"
      by simp
    with lt x Suc show ?thesis by simp
  qed
qed

lemma ug45_loop_exhausted:
  assumes "\<forall>row\<in>set xs. od_of row < target"
  shows "ug45_loop xs target ca vars = (None, if xs = [] then vars else Some (last xs))"
  using assms
proof (induction xs arbitrary: vars)
  case Nil
  then show ?case by simp
next
  case (Cons x xs)
  obtain nps dn od thk where x: "x = (nps, dn, od, thk)"
    by (cases x) auto
  with Cons.prems have "\<not> od \<ge> target"
    by (simp add: od_of_def)
  with Cons x show ?case by simp
qed

lemma first_index:
  assumes "\<exists>x\<in>set xs. P x"
  shows "\<exists>k<length xs. P (xs ! k) \<and> (\<forall>j<k. \<not> P (xs ! j))"
  using assms
proof (induction xs)
  case Nil
  then show ?case by simp
next
  case (Cons x xs)
  show ?case
  proof (cases "P x")
    case True
    then have "0 < length (x # xs) \<and> P ((x # xs) ! 0) \<and> (\<forall>j<0. \<not> P ((x # xs) ! j))"
      by simp
    then show ?thesis by blast
  next
    case False
    with Cons.prems have "\<exists>y\<in>set xs. P y" by simp
    with Cons.IH obtain k where k: "k < length xs" "P (xs ! k)" "\<forall>j<k. \<not> P (xs ! j)"
      by blast
    have "\<forall>j<Suc k. \<not> P ((x # xs) ! j)"
      using False k(3) by (auto simp: less_Suc_eq_0_disj)
    with k have "Suc k < length (x # xs) \<and> P ((x # xs) ! Suc k)
        \<and> (\<forall>j<Suc k. \<not> P ((x # xs) ! j))"
      by simp
    then show ?thesis by blast
  qed
qed

lemma table_sorted: "sorted (map od_of sorted_table)"
  by (simp add: sorted_table_eq UG45_TABLE_def od_of_def)

lemma table_largest: "Max (od_of ` set UG45_TABLE) = 323.85"
  by (simp add: UG45_TABLE_def od_of_def)

lemma table_last: "last sorted_table = (''12'', 300, 323.85, 8.34)"
  by (simp add: sorted_table_eq UG45_TABLE_def)

subsection \<open>The report of a complete input, phase by phase\<close>

lemma ug16_step_eq:
  "ug16_step i r =
     Inr (r\<lparr>ug16 := Some
       \<lparr>shell = \<lparr>required = fst (get_ug16_min_thickness (equipment_type i) (service_type i)
                                    (custom_min_enabled i) (custom_min i)),
                  actual = t i - CA i,
                  check.status = (t i - CA i \<ge> fst (get_ug16_min_thickness (equipment_type i)
                                    (service_type i) (custom_min_enabled i) (custom_min i)))\<rparr>,
        ug16_section.head =
          \<lparr>required = fst (get_ug16_min_thickness (equipment_type i) (service_type i)
                             (custom_min_enabled i) (custom_min i)),
           actual = th_head i - CA i,
           check.status = (th_head i - CA i \<ge> fst (get_ug16_min_thickness (equipment_type i)
                             (service_type i) (custom_min_enabled i) (custom_min i)))\<rparr>,
        nozzle = \<lparr>required = fst (get_ug16_min_thickness (equipment_type i) (service_type i)
                                    (custom_min_enabled i) (custom_min i)),
                   actual = tn i - CA i,
                   check.status = (tn i - CA i \<ge> fst (get_ug16_min_thickness (equipment_type i)
                                    (service_type i) (custom_min_enabled i) (custom_min i)))\<rparr>,
        reference = snd (get_ug16_min_thickness (equipment_type i) (service_type i)
                           (custom_min_enabled i) (custom_min i))\<rparr>\<rparr>)"
  by (simp add: ug16_step_def case_prod_beta)

lemma ug16_step_ok: "\<exists>u. ug16_step i r = Inr (r\<lparr>ug16 := Some u\<rparr>)"
  unfolding ug16_step_eq by blast

lemma ug45_step_found:
  assumes "calculations r ''nozzle'' = Some c"
    and "k < length sorted_table" and "od_of (sorted_table ! k) \<ge> nozzle_od i"
    and "\<forall>j<k. od_of (sorted_table ! j) < nozzle_od i"
  shows "ug45_step i r = Inr (r\<lparr>ug45 := Some
           \<lparr>required = max (required c) (thickness_of (sorted_table ! k) + CA i),
            actual = tn i,
            check.status = (tn i \<ge> max (required c) (thickness_of (sorted_table ! k) + CA i)),
            matched_size = ''NPS '' @ nps_of (sorted_table ! k)\<rparr>\<rparr>)"
  using assms(1) ug45_loop_found [OF assms(2,3,4), of "CA i" None]
  by (simp add: ug45_step_def nps_of_def split: prod.splits)

lemma ug45_step_exhausted:
  assumes "calculations r ''nozzle'' = Some c"
    and "\<forall>row\<in>set sorted_table. od_of row < nozzle_od i"
  shows "ug45_step i r = Inr (r\<lparr>ug45 := Some
           \<lparr>required = max (required c) (8.34 + CA i),
            actual = tn i,
            check.status = (tn i \<ge> max (required c) (8.34 + CA i)),
            matched_size = ''NPS 12''\<rparr>\<rparr>)"
  using assms(1) ug45_loop_exhausted [OF assms(2), of "CA i" None] sorted_table_nonempty
  by (simp add: ug45_step_def table_last split: prod.splits)

lemma ug45_step_ok:
  assumes "calculations r ''nozzle'' = Some c"
  shows "\<exists>n. ug45_step i r = Inr (r\<lparr>ug45 := Some n\<rparr>)"
proof (cases "\<exists>row\<in>set sorted_table. od_of row \<ge> nozzle_od i")
  case True
  from first_index [OF True] obtain k where
    "k < length sorted_table" "od_of (sorted_table ! k) \<ge> nozzle_od i"
    "\<forall>j<k. \<not> od_of (sorted_table ! j) \<ge> nozzle_od i"
    by blast
  then show ?thesis
    using ug45_step_found [OF assms, of k i] by (auto simp: not_le)
next
  case False
  then have "\<forall>row\<in>set sorted_table. od_of row < nozzle_od i"
    by (auto simp: not_le)
  then show ?thesis
    using ug45_step_exhausted [OF assms, of i] by blast
qed

lemma run_steps_append:
  "run_steps (xs @ ys) r =
     (case run_steps xs r of (None, r') \<Rightarrow> run_steps ys r' | (Some e, r') \<Rightarrow> (Some e, r'))"
  by (induction xs arbitrary: r) (auto split: sum.splits)

lemma compliance_steps_split:
  "compliance_steps i =
     except_handler
       (case run_steps [shell_step i, head_step i, nozzle_step i, ug16_step i, ug45_step i]
               init_results of
          (None, r) \<Rightarrow> run_steps [stress_step i, load_step i, compliant_step i] r
        | (Some e, r) \<Rightarrow> (Some e, r))"
  using run_steps_append [of "[shell_step i, head_step i, nozzle_step i, ug16_step i, ug45_step i]"
      "[stress_step i, load_step i, compliant_step i]" init_results]
  by (simp add: compliance_steps_def)

text \<open>
  The thickness steps fail: the handler gets the first exception, and the report holds the
  thickness entries written before it.
\<close>

lemma front_fail:
  assumes "\<not> thickness_ok i"
  shows "\<exists>c. run_steps [shell_step i, head_step i, nozzle_step i, ug16_step i, ug45_step i]
             init_results =
           (Some (if shell_den i \<noteq> 0 \<and> head_den i = None
                  then ValueError ''Invalid head type'' else ZeroDivisionError),
            init_results\<lparr>calculations := c\<rparr>)
         \<and> (c ''shell'' =
              (if shell_den i = 0 then None
               else Some \<lparr>required = P_int i * D i / shell_den i, actual = t i - CA i\<rparr>))
         \<and> c ''nozzle'' = None"
proof (cases "shell_den i = 0")
  case True
  then have "run_steps [shell_step i, head_step i, nozzle_step i, ug16_step i, ug45_step i]
      init_results = (Some ZeroDivisionError, init_results\<lparr>calculations := Map.empty\<rparr>)"
    by (simp add: shell_step_eq init_results_def)
  with True show ?thesis
    by (intro exI [of _ Map.empty]) simp
next
  case sd: False
  let ?c1 = "[''shell'' \<mapsto> \<lparr>required = P_int i * D i / shell_den i, actual = t i - CA i\<rparr>]"
  let ?r1 = "init_results\<lparr>calculations := ?c1\<rparr>"
  have one: "run_steps [shell_step i, head_step i, nozzle_step i, ug16_step i, ug45_step i]
      init_results = run_steps [head_step i, nozzle_step i, ug16_step i, ug45_step i] ?r1"
    using sd by (simp add: shell_step_eq init_fields)
  show ?thesis
  proof (cases "head_den i")
    case None
    then have "run_steps [head_step i, nozzle_step i, ug16_step i, ug45_step i] ?r1 =
        (Some (ValueError ''Invalid head type''), ?r1)"
      by (simp add: head_step_eq)
    with one None sd show ?thesis
      by (intro exI [of _ ?c1]) simp
  next
    case (Some x)
    show ?thesis
    proof (cases "x = 0")
      case True
      with Some have "run_steps [head_step i, nozzle_step i, ug16_step i, ug45_step i] ?r1 =
          (Some ZeroDivisionError, ?r1)"
        by (simp add: head_step_eq)
      with one Some sd show ?thesis
        by (intro exI [of _ ?c1]) simp
    next
      case False
      with Some sd assms have nd: "nozzle_den i = 0"
        by (simp add: thickness_ok_def)
      let ?c2 = "[''shell'' \<mapsto> \<lparr>required = P_int i * D i / shell_den i, actual = t i - CA i\<rparr>,
          ''head'' \<mapsto> \<lparr>required = head_required i, actual = th_head i - CA i\<rparr>]"
      from Some False nd
      have "run_steps [head_step i, nozzle_step i, ug16_step i, ug45_step i] ?r1 =
          (Some ZeroDivisionError, init_results\<lparr>calculations := ?c2\<rparr>)"
        by (simp add: head_step_eq nozzle_step_eq)
      with one Some sd show ?thesis
        by (intro exI [of _ ?c2]) simp
    qed
  qed
qed

text \<open>The thickness steps succeed: the minimum and reinforcement steps follow.\<close>

lemma front_ok:
  assumes "thickness_ok i"
  shows "\<exists>u n.
      ug45_step i (init_results\<lparr>calculations := calculations_of i, ug16 := Some u\<rparr>) =
        Inr (init_results\<lparr>calculations := calculations_of i, ug16 := Some u, ug45 := Some n\<rparr>)
    \<and> run_steps [shell_step i, head_step i, nozzle_step i, ug16_step i, ug45_step i]
        init_results =
      (None, init_results\<lparr>calculations := calculations_of i, ug16 := Some u, ug45 := Some n\<rparr>)"
proof -
  from assms obtain hd where hd: "head_den i = Some hd" "hd \<noteq> 0"
    and sd: "shell_den i \<noteq> 0" and nd: "nozzle_den i \<noteq> 0"
    by (auto simp: thickness_ok_def split: option.splits)
  let ?r3 = "init_results\<lparr>calculations := calculations_of i\<rparr>"
  obtain u where u: "ug16_step i ?r3 = Inr (?r3\<lparr>ug16 := Some u\<rparr>)"
    using ug16_step_ok by blast
  have "calculations (?r3\<lparr>ug16 := Some u\<rparr>) ''nozzle'' =
      Some \<lparr>required = P_int i * d i / nozzle_den i, actual = tn i - CA i\<rparr>"
    by (simp add: calculations_of_nozzle)
  from ug45_step_ok [OF this, of i] obtain n where
    n: "ug45_step i (?r3\<lparr>ug16 := Some u\<rparr>) = Inr (?r3\<lparr>ug16 := Some u, ug45 := Some n\<rparr>)"
    by auto
  have three: "run_steps [shell_step i, head_step i, nozzle_step i, ug16_step i, ug45_step i]
      init_results = run_steps [ug16_step i, ug45_step i] ?r3"
    using hd sd nd
    by (simp add: shell_step_eq head_step_eq nozzle_step_eq init_fields calculations_of_def)
  have "run_steps [ug16_step i, ug45_step i] ?r3 = (None, ?r3\<lparr>ug16 := Some u, ug45 := Some n\<rparr>)"
    using u n by simp
  with three have "run_steps [shell_step i, head_step i, nozzle_step i, ug16_step i, ug45_step i]
      init_results = (None, ?r3\<lparr>ug16 := Some u, ug45 := Some n\<rparr>)"
    by simp
  with n show ?thesis by blast
qed

text \<open>The last three steps, from any report.\<close>

lemma final_compliance_eq:
  assumes "ug16 r = Some u" and "ug45 r = Some n"
    and "stresses r ''shell'' = Some s1" and "stresses r ''head'' = Some s2"
    and "stresses r ''nozzle'' = Some s3"
  shows "final_compliance i r =
     Inr (check.status (shell u) \<and> check.status (ug16_section.head u)
          \<and> check.status (nozzle u) \<and> check.status n
          \<and> s1 \<le> S_shell i \<and> s2 \<le> S_head i \<and> s3 \<le> S_nozzle i
          \<and> (case loads r of None \<Rightarrow> False | Some l \<Rightarrow> loads_section.status l))"
  using assms by (simp add: final_compliance_def)

lemma tail_stress_fail:
  assumes "\<not> stress_ok i"
  shows "run_steps [stress_step i, load_step i, compliant_step i] r = (Some (KeyError ''errors''), r)"
  using assms by (simp add: stress_step_eq)

lemma tail_load_fail:
  assumes "stress_ok i" and "\<not> load_ok i"
  shows "run_steps [stress_step i, load_step i, compliant_step i] r =
     (Some (KeyError ''errors''), r\<lparr>stresses := stresses_of i\<rparr>)"
  using assms by (simp add: stress_step_eq load_step_eq)

lemma tail_ok:
  assumes "stress_ok i" and "load_ok i" and "ug16 r = Some u" and "ug45 r = Some n"
  shows "run_steps [stress_step i, load_step i, compliant_step i] r =
     (None, r\<lparr>stresses := stresses_of i, loads := Some (projr (load_try i)),
              compliant := Some
                (check.status (shell u) \<and> check.status (ug16_section.head u)
                 \<and> check.status (nozzle u) \<and> check.status n
                 \<and> P_int i * (D i / 2) / ((t i - CA i) * E_shell i) \<le> S_shell i
                 \<and> P_int i * D i / (4 * (th_head i - CA i) * E_head i) \<le> S_head i
                 \<and> P_int i * (d i / 2) / ((tn i - CA i) * E_nozzle i) \<le> S_nozzle i
                 \<and> loads_section.status (projr (load_try i)))\<rparr>)"
proof -
  let ?r2 = "r\<lparr>stresses := stresses_of i, loads := Some (projr (load_try i))\<rparr>"
  have "final_compliance i ?r2 =
     Inr (check.status (shell u) \<and> check.status (ug16_section.head u)
          \<and> check.status (nozzle u) \<and> check.status n
          \<and> P_int i * (D i / 2) / ((t i - CA i) * E_shell i) \<le> S_shell i
          \<and> P_int i * D i / (4 * (th_head i - CA i) * E_head i) \<le> S_head i
          \<and> P_int i * (d i / 2) / ((tn i - CA i) * E_nozzle i) \<le> S_nozzle i
          \<and> (case loads ?r2 of None \<Rightarrow> False | Some l \<Rightarrow> loads_section.status l))"
    using assms(3,4) by (intro final_compliance_eq) (simp_all add: stresses_of_keys)
  then have "compliant_step i ?r2 = Inr (?r2\<lparr>compliant := Some
                (check.status (shell u) \<and> check.status (ug16_section.head u)
                 \<and> check.status (nozzle u) \<and> check.status n
                 \<and> P_int i * (D i / 2) / ((t i - CA i) * E_shell i) \<le> S_shell i
                 \<and> P_int i * D i / (4 * (th_head i - CA i) * E_head i) \<le> S_head i
                 \<and> P_int i * (d i / 2) / ((tn i - CA i) * E_nozzle i) \<le> S_nozzle i
                 \<and> loads_section.status (projr (load_try i)))\<rparr>)"
    by (simp add: compliant_step_def)
  then show ?thesis
    using assms(1,2) by (simp add: stress_step_eq load_step_eq)
qed

subsection \<open>The report of a complete input, case by case\<close>

lemma handler_keeps:
  "calculations (except_handler (x, r)) = calculations r"
  "ug16 (except_handler (x, r)) = ug16 r"
  "ug45 (except_handler (x, r)) = ug45 r"
  "stresses (except_handler (x, r)) = stresses r"
  "loads (except_handler (x, r)) = loads r"
  "compliant (except_handler (x, r)) = compliant r"
  by (cases x; simp add: except_handler_def)+

lemma handler_errors:
  "errors (except_handler (None, r)) = errors r"
  "errors (except_handler (Some e, r)) = errors r @ [''Calculation error: '' @ str_exn e]"
  by (simp_all add: except_handler_def)

lemma tail_keeps:
  assumes "run_steps [stress_step i, load_step i, compliant_step i] r = (x, r')"
  shows "calculations r' = calculations r" "ug16 r' = ug16 r" "ug45 r' = ug45 r"
    "errors r' = errors r"
  using assms
  by (auto simp: stress_step_eq load_step_eq compliant_step_def split: sum.splits if_splits)

text \<open>A thickness formula raises.\<close>

lemma report_thickness_fail:
  assumes "\<not> thickness_ok i"
  shows "errors (compliance_steps i) =
           [''Calculation error: '' @
            str_exn (if shell_den i \<noteq> 0 \<and> head_den i = None
                     then ValueError ''Invalid head type'' else ZeroDivisionError)]"
    and "calculations (compliance_steps i) ''shell'' =
           (if shell_den i = 0 then None
            else Some \<lparr>required = P_int i * D i / shell_den i, actual = t i - CA i\<rparr>)"
    and "calculations (compliance_steps i) ''nozzle'' = None"
    and "ug16 (compliance_steps i) = None"
    and "ug45 (compliance_steps i) = None"
    and "stresses (compliance_steps i) = Map.empty"
    and "loads (compliance_steps i) = None"
    and "compliant (compliance_steps i) = None"
proof -
  from front_fail [OF assms] obtain c where
    run: "run_steps [shell_step i, head_step i, nozzle_step i, ug16_step i, ug45_step i]
             init_results =
           (Some (if shell_den i \<noteq> 0 \<and> head_den i = None
                  then ValueError ''Invalid head type'' else ZeroDivisionError),
            init_results\<lparr>calculations := c\<rparr>)"
    and c: "c ''shell'' =
              (if shell_den i = 0 then None
               else Some \<lparr>required = P_int i * D i / shell_den i, actual = t i - CA i\<rparr>)"
      "c ''nozzle'' = None"
    by blast
  have eq: "compliance_steps i =
      except_handler
        (Some (if shell_den i \<noteq> 0 \<and> head_den i = None
               then ValueError ''Invalid head type'' else ZeroDivisionError),
         init_results\<lparr>calculations := c\<rparr>)"
    unfolding compliance_steps_split run by simp
  show "errors (compliance_steps i) =
           [''Calculation error: '' @
            str_exn (if shell_den i \<noteq> 0 \<and> head_den i = None
                     then ValueError ''Invalid head type'' else ZeroDivisionError)]"
    unfolding eq handler_errors by (simp add: init_fields)
  show "calculations (compliance_steps i) ''shell'' =
           (if shell_den i = 0 then None
            else Some \<lparr>required = P_int i * D i / shell_den i, actual = t i - CA i\<rparr>)"
    unfolding eq handler_keeps using c(1) by simp
  show "calculations (compliance_steps i) ''nozzle'' = None"
    unfolding eq handler_keeps using c(2) by simp
  show "ug16 (compliance_steps i) = None"
    unfolding eq handler_keeps by (simp add: init_fields)
  show "ug45 (compliance_steps i) = None"
    unfolding eq handler_keeps by (simp add: init_fields)
  show "stresses (compliance_steps i) = Map.empty"
    unfolding eq handler_keeps by (simp add: init_fields)
  show "loads (compliance_steps i) = None"
    unfolding eq handler_keeps by (simp add: init_fields)
  show "compliant (compliance_steps i) = None"
    unfolding eq handler_keeps by (simp add: init_fields)
qed

text \<open>
  The thickness formulas return: the thickness, minimum and reinforcement sections are
  written, whatever the analysers do afterwards.
\<close>

lemma report_thickness_ok:
  assumes "thickness_ok i"
  shows "\<exists>u n.
      ug45_step i (init_results\<lparr>calculations := calculations_of i, ug16 := Some u\<rparr>) =
        Inr (init_results\<lparr>calculations := calculations_of i, ug16 := Some u, ug45 := Some n\<rparr>)
    \<and> compliance_steps i =
        except_handler (run_steps [stress_step i, load_step i, compliant_step i]
          (init_results\<lparr>calculations := calculations_of i, ug16 := Some u, ug45 := Some n\<rparr>))
    \<and> calculations (compliance_steps i) = calculations_of i
    \<and> ug16 (compliance_steps i) = Some u
    \<and> ug45 (compliance_steps i) = Some n"
proof -
  from front_ok [OF assms] obtain u n where
    n: "ug45_step i (init_results\<lparr>calculations := calculations_of i, ug16 := Some u\<rparr>) =
        Inr (init_results\<lparr>calculations := calculations_of i, ug16 := Some u, ug45 := Some n\<rparr>)"
    and run: "run_steps [shell_step i, head_step i, nozzle_step i, ug16_step i, ug45_step i]
        init_results =
      (None, init_results\<lparr>calculations := calculations_of i, ug16 := Some u, ug45 := Some n\<rparr>)"
    by blast
  let ?r = "init_results\<lparr>calculations := calculations_of i, ug16 := Some u, ug45 := Some n\<rparr>"
  have eq: "compliance_steps i =
      except_handler (run_steps [stress_step i, load_step i, compliant_step i] ?r)"
    unfolding compliance_steps_split run by simp
  obtain x r' where t: "run_steps [stress_step i, load_step i, compliant_step i] ?r = (x, r')"
    by (cases "run_steps [stress_step i, load_step i, compliant_step i] ?r") auto
  from tail_keeps [OF t] have
    "calculations (compliance_steps i) = calculations_of i"
    "ug16 (compliance_steps i) = Some u"
    "ug45 (compliance_steps i) = Some n"
    unfolding eq t handler_keeps by simp_all
  with n eq show ?thesis by blast
qed

lemma report_stress_fail:
  assumes "thickness_ok i" and "\<not> stress_ok i"
  shows "errors (compliance_steps i) = [''Calculation error: '' @ str_exn (KeyError ''errors'')]"
    and "stresses (compliance_steps i) = Map.empty"
    and "loads (compliance_steps i) = None"
    and "compliant (compliance_steps i) = None"
proof -
  from report_thickness_ok [OF assms(1)] obtain u n where
    eq: "compliance_steps i =
        except_handler (run_steps [stress_step i, load_step i, compliant_step i]
          (init_results\<lparr>calculations := calculations_of i, ug16 := Some u, ug45 := Some n\<rparr>))"
    by blast
  show "errors (compliance_steps i) = [''Calculation error: '' @ str_exn (KeyError ''errors'')]"
    unfolding eq tail_stress_fail [OF assms(2)] handler_errors by (simp add: init_fields)
  show "stresses (compliance_steps i) = Map.empty"
    unfolding eq tail_stress_fail [OF assms(2)] handler_keeps by (simp add: init_fields)
  show "loads (compliance_steps i) = None"
    unfolding eq tail_stress_fail [OF assms(2)] handler_keeps by (simp add: init_fields)
  show "compliant (compliance_steps i) = None"
    unfolding eq tail_stress_fail [OF assms(2)] handler_keeps by (simp add: init_fields)
qed

lemma report_load_fail:
  assumes "thickness_ok i" and "stress_ok i" and "\<not> load_ok i"
  shows "errors (compliance_steps i) = [''Calculation error: '' @ str_exn (KeyError ''errors'')]"
    and "stresses (compliance_steps i) = stresses_of i"
    and "loads (compliance_steps i) = None"
    and "compliant (compliance_steps i) = None"
proof -
  from report_thickness_ok [OF assms(1)] obtain u n where
    eq: "compliance_steps i =
        except_handler (run_steps [stress_step i, load_step i, compliant_step i]
          (init_results\<lparr>calculations := calculations_of i, ug16 := Some u, ug45 := Some n\<rparr>))"
    by blast
  note tl = tail_load_fail [OF assms(2,3)]
  show "errors (compliance_steps i) = [''Calculation error: '' @ str_exn (KeyError ''errors'')]"
    unfolding eq tl handler_errors by (simp add: init_fields)
  show "stresses (compliance_steps i) = stresses_of i"
    unfolding eq tl handler_keeps by simp
  show "loads (compliance_steps i) = None"
    unfolding eq tl handler_keeps by (simp add: init_fields)
  show "compliant (compliance_steps i) = None"
    unfolding eq tl handler_keeps by (simp add: init_fields)
qed

lemma report_ok:
  assumes "thickness_ok i" and "stress_ok i" and "load_ok i"
  shows "\<exists>u n. ug16 (compliance_steps i) = Some u \<and> ug45 (compliance_steps i) = Some n
      \<and> errors (compliance_steps i) = []
      \<and> stresses (compliance_steps i) = stresses_of i
      \<and> loads (compliance_steps i) = Some (projr (load_try i))
      \<and> compliant (compliance_steps i) = Some
                (check.status (shell u) \<and> check.status (ug16_section.head u)
                 \<and> check.status (nozzle u) \<and> check.status n
                 \<and> P_int i * (D i / 2) / ((t i - CA i) * E_shell i) \<le> S_shell i
                 \<and> P_int i * D i / (4 * (th_head i - CA i) * E_head i) \<le> S_head i
                 \<and> P_int i * (d i / 2) / ((tn i - CA i) * E_nozzle i) \<le> S_nozzle i
                 \<and> loads_section.status (projr (load_try i)))"
proof -
  from report_thickness_ok [OF assms(1)] obtain u n where
    eq: "compliance_steps i =
        except_handler (run_steps [stress_step i, load_step i, compliant_step i]
          (init_results\<lparr>calculations := calculations_of i, ug16 := Some u, ug45 := Some n\<rparr>))"
    and u: "ug16 (compliance_steps i) = Some u" and n: "ug45 (compliance_steps i) = Some n"
    by blast
  let ?r = "init_results\<lparr>calculations := calculations_of i, ug16 := Some u, ug45 := Some n\<rparr>"
  have "ug16 ?r = Some u" "ug45 ?r = Some n"
    by simp_all
  note tl = tail_ok [OF assms(2,3) this]
  have "errors (compliance_steps i) = []"
    unfolding eq tl handler_errors by (simp add: init_fields)
  moreover have "stresses (compliance_steps i) = stresses_of i"
    unfolding eq tl handler_keeps by simp
  moreover have "loads (compliance_steps i) = Some (projr (load_try i))"
    unfolding eq tl handler_keeps by simp
  moreover have "compliant (compliance_steps i) = Some
                (check.status (shell u) \<and> check.status (ug16_section.head u)
                 \<and> check.status (nozzle u) \<and> check.status n
                 \<and> P_int i * (D i / 2) / ((t i - CA i) * E_shell i) \<le> S_shell i
                 \<and> P_int i * D i / (4 * (th_head i - CA i) * E_head i) \<le> S_head i
                 \<and> P_int i * (d i / 2) / ((tn i - CA i) * E_nozzle i) \<le> S_nozzle i
                 \<and> loads_section.status (projr (load_try i)))"
    unfolding eq tl handler_keeps by simp
  ultimately show ?thesis
    using u n by blast
qed

text \<open>The reinforcement section of the report when the thickness formulas return.\<close>

lemma report_ug45_found:
  assumes "thickness_ok i"
    and "k < length sorted_table" and "od_of (sorted_table ! k) \<ge> nozzle_od i"
    and "\<forall>j<k. od_of (sorted_table ! j) < nozzle_od i"
  shows "ug45 (compliance_steps i) = Some
           \<lparr>required = max (P_int i * d i / nozzle_den i) (thickness_of (sorted_table ! k) + CA i),
            actual = tn i,
            check.status =
              (tn i \<ge> max (P_int i * d i / nozzle_den i) (thickness_of (sorted_table ! k) + CA i)),
            matched_size = ''NPS '' @ nps_of (sorted_table ! k)\<rparr>"
proof -
  from report_thickness_ok [OF assms(1)] obtain u n where
    n: "ug45_step i (init_results\<lparr>calculations := calculations_of i, ug16 := Some u\<rparr>) =
        Inr (init_results\<lparr>calculations := calculations_of i, ug16 := Some u, ug45 := Some n\<rparr>)"
    and r: "ug45 (compliance_steps i) = Some n"
    by blast
  have "calculations (init_results\<lparr>calculations := calculations_of i, ug16 := Some u\<rparr>) ''nozzle''
      = Some \<lparr>required = P_int i * d i / nozzle_den i, actual = tn i - CA i\<rparr>"
    by (simp add: calculations_of_nozzle)
  from ug45_step_found [OF this assms(2,3,4)] n
  have "ug45 (init_results\<lparr>calculations := calculations_of i, ug16 := Some u, ug45 := Some n\<rparr>) =
      ug45 (init_results\<lparr>calculations := calculations_of i, ug16 := Some u,
        ug45 := Some
           \<lparr>required = max (P_int i * d i / nozzle_den i) (thickness_of (sorted_table ! k) + CA i),
            actual = tn i,
            check.status =
              (tn i \<ge> max (P_int i * d i / nozzle_den i) (thickness_of (sorted_table ! k) + CA i)),
            matched_size = ''NPS '' @ nps_of (sorted_table ! k)\<rparr>\<rparr>)"
    by simp
  with r show ?thesis by simp
qed

lemma report_ug45_exhausted:
  assumes "thickness_ok i"
    and "\<forall>row\<in>set sorted_table. od_of row < nozzle_od i"
  shows "ug45 (compliance_steps i) = Some
           \<lparr>required = max (P_int i * d i / nozzle_den i) (8.34 + CA i),
            actual = tn i,
            check.status = (tn i \<ge> max (P_int i * d i / nozzle_den i) (8.34 + CA i)),
            matched_size = ''NPS 12''\<rparr>"
proof -
  from report_thickness_ok [OF assms(1)] obtain u n where
    n: "ug45_step i (init_results\<lparr>calculations := calculations_of i, ug16 := Some u\<rparr>) =
        Inr (init_results\<lparr>calculations := calculations_of i, ug16 := Some u, ug45 := Some n\<rparr>)"
    and r: "ug45 (compliance_steps i) = Some n"
    by blast
  have "calculations (init_results\<lparr>calculations := calculations_of i, ug16 := Some u\<rparr>) ''nozzle''
      = Some \<lparr>required = P_int i * d i / nozzle_den i, actual = tn i - CA i\<rparr>"
    by (simp add: calculations_of_nozzle)
  from ug45_step_exhausted [OF this assms(2)] n
  have "ug45 (init_results\<lparr>calculations := calculations_of i, ug16 := Some u, ug45 := Some n\<rparr>) =
      ug45 (init_results\<lparr>calculations := calculations_of i, ug16 := Some u,
        ug45 := Some
           \<lparr>required = max (P_int i * d i / nozzle_den i) (8.34 + CA i),
            actual = tn i,
            check.status = (tn i \<ge> max (P_int i * d i / nozzle_den i) (8.34 + CA i)),
            matched_size = ''NPS 12''\<rparr>\<rparr>)"
    by simp
  with r show ?thesis by simp
qed

text \<open>The definitions that evaluate the report of a concrete input.\<close>

lemmas report_eval =
  compliance_steps_def shell_step_eq head_step_eq nozzle_step_eq ug16_step_eq
  stress_step_eq load_step_def perform_load_analysis_def load_try_def py_div_def
  compliant_step_def final_compliance_def
  ug45_step_def sorted_table_eq UG45_TABLE_def example_inputs_def shell_den_def head_den_def
  nozzle_den_def head_required_def stress_ok_def stresses_of_def init_results_def
  except_handler_def get_ug16_min_thickness_def UG16_MINIMUMS_def Let_def
  ALLOWABLE_STRESS_FACTOR_def

lemmas condition_eval =
  thickness_ok_def stress_ok_def load_ok_def shell_den_def head_den_def nozzle_den_def
  example_inputs_def

lemma filter_single:
  assumes "distinct xs" and "key \<in> set xs" and "\<forall>k\<in>set xs. P k = (k = key)"
  shows "filter P xs = [key]"
  using assms
proof (induction xs)
  case Nil
  then show ?case by simp
next
  case (Cons x xs)
  show ?case
  proof (cases "x = key")
    case True
    with Cons.prems have "\<forall>k\<in>set xs. \<not> P k"
      by auto
    then have "filter P xs = []"
      by (simp add: filter_empty_conv)
    with True Cons.prems show ?thesis by simp
  next
    case False
    with Cons.prems have "filter P xs = [key]"
      by (intro Cons.IH) auto
    with False Cons.prems show ?thesis by simp
  qed
qed

lemma required_keys_distinct: "distinct required_keys"
  by (simp add: required_keys_def)

subsection \<open>Missing input fields\<close>

text \<open>
  Claim C2, as amended. The orchestrator requires 25 fields. For every input dictionary
  from which one of them is absent, the report's error list holds one message: the names
  of the absent fields in the order of the list of required fields, joined by a comma
  and a space, after the words \<open>Missing inputs\<close>; when one field only is absent the
  message names that field and no other. Nothing else is computed: the thickness,
  minimum-thickness, reinforcement, stress and load sections are empty and no overall
  verdict is written.
\<close>

theorem missing_input_errored:
  assumes "key \<in> set required_keys" and "m key = None"
  shows "length required_keys = 25
    \<and> (\<exists>rep. calculate_asme_compliance m = Some rep
       \<and> errors rep = [''Calculation error: Missing inputs: '' @
                          join '', '' (filter (\<lambda>k. m k = None) required_keys)]
       \<and> key \<in> set (filter (\<lambda>k. m k = None) required_keys)
       \<and> ((\<forall>k\<in>set required_keys. k \<noteq> key \<longrightarrow> m k \<noteq> None) \<longrightarrow>
             errors rep = [''Calculation error: Missing inputs: '' @ key])
       \<and> calculations rep = Map.empty \<and> ug16 rep = None \<and> ug45 rep = None
       \<and> stresses rep = Map.empty \<and> loads rep = None \<and> compliant rep = None)"
proof -
  let ?missing = "filter (\<lambda>k. m k = None) required_keys"
  let ?rep = "except_handler
     (Some (ValueError (''Missing inputs: '' @ join '', '' ?missing)), init_results)"
  from assms have mem: "key \<in> set ?missing"
    by simp
  then have "?missing \<noteq> []"
    by (metis empty_iff empty_set)
  then have run: "calculate_asme_compliance m = Some ?rep"
    by (simp add: calculate_asme_compliance_def)
  have err: "errors ?rep = [''Calculation error: Missing inputs: '' @ join '', '' ?missing]"
    unfolding handler_errors by (simp add: init_fields)
  have one: "(\<forall>k\<in>set required_keys. k \<noteq> key \<longrightarrow> m k \<noteq> None) \<longrightarrow>
      errors ?rep = [''Calculation error: Missing inputs: '' @ key]"
  proof
    assume "\<forall>k\<in>set required_keys. k \<noteq> key \<longrightarrow> m k \<noteq> None"
    with assms(2) have "\<forall>k\<in>set required_keys. (m k = None) = (k = key)"
      by auto
    from filter_single [OF required_keys_distinct assms(1) this]
    show "errors ?rep = [''Calculation error: Missing inputs: '' @ key]"
      unfolding err by simp
  qed
  have empty: "calculations ?rep = Map.empty" "ug16 ?rep = None" "ug45 ?rep = None"
    "stresses ?rep = Map.empty" "loads ?rep = None" "compliant ?rep = None"
    unfolding handler_keeps by (simp_all add: init_fields)
  have "length required_keys = 25"
    by (simp add: required_keys_def)
  with run err mem one empty show ?thesis
    by blast
qed

theorem missing_input_errored_witness:
  "map_option errors (calculate_asme_compliance ((dict_of example_inputs)(''tn'' := None))) =
     Some [''Calculation error: Missing inputs: tn'']
   \<and> map_option loads (calculate_asme_compliance ((dict_of example_inputs)(''tn'' := None))) =
     Some None
   \<and> map_option compliant (calculate_asme_compliance ((dict_of example_inputs)(''tn'' := None))) =
     Some None"
proof -
  let ?m = "(dict_of example_inputs)(''tn'' := None)"
  have k: "''tn'' \<in> set required_keys"
    by (simp add: required_keys_def)
  have others: "\<forall>k\<in>set required_keys. k \<noteq> ''tn'' \<longrightarrow> ?m k \<noteq> None"
    by (simp add: required_keys_def dict_of_def)
  from missing_input_errored [OF k, of ?m] others show ?thesis
    by auto
qed

text \<open>The list of required fields has 25 names, all different.\<close>

theorem required_fields_count:
  "length required_keys = 25 \<and> distinct required_keys"
  by (simp add: required_keys_def)

subsection \<open>The load analyser\<close>

text \<open>
  Claim C10, as amended. For every input with nozzle diameter \<open>d > 0\<close> and corroded
  nozzle thickness \<open>tn - CA > 0\<close> the load analyser returns a load section with
  axial stress \<open>Fz / (\<pi> d (tn - CA))\<close>, bending stress
  \<open>4 sqrt (Mx\<^sup>2 + My\<^sup>2) / (\<pi> d\<^sup>2 (tn - CA))\<close>, shear stress
  \<open>sqrt (Fx\<^sup>2 + Fy\<^sup>2) / (\<pi> d (tn - CA))\<close>, equivalent stress
  \<open>sqrt ((axial + bending)\<^sup>2 + 3 shear\<^sup>2)\<close>, allowable limit 1.5 times the
  nozzle allowable stress, and a pass flag that is true iff the equivalent stress is at
  most the limit. The torsional moment \<open>Mz\<close> takes no part. With all six load components
  zero the equivalent stress is 0 and the pass flag is true iff the nozzle allowable
  stress is not negative.
\<close>

theorem load_analysis_formulas:
  assumes "d i > 0" and "tn i - CA i > 0"
  shows "\<exists>l. perform_load_analysis i = Inr l
     \<and> axial l = Fz i / (pi * d i * (tn i - CA i))
     \<and> bending l = 4 * sqrt ((Mx i)\<^sup>2 + (My i)\<^sup>2) / (pi * (d i)\<^sup>2 * (tn i - CA i))
     \<and> shear l = sqrt ((Fx i)\<^sup>2 + (Fy i)\<^sup>2) / (pi * d i * (tn i - CA i))
     \<and> equivalent l = sqrt ((axial l + bending l)\<^sup>2 + 3 * (shear l)\<^sup>2)
     \<and> allowable l = 1.5 * S_nozzle i
     \<and> loads_section.status l = (equivalent l \<le> allowable l)
     \<and> (\<forall>z. perform_load_analysis (i\<lparr>Mz := z\<rparr>) = perform_load_analysis i)
     \<and> (Fx i = 0 \<and> Fy i = 0 \<and> Fz i = 0 \<and> Mx i = 0 \<and> My i = 0 \<and> Mz i = 0 \<longrightarrow>
          equivalent l = 0 \<and> loads_section.status l = (0 \<le> S_nozzle i))"
proof -
  from assms have nz: "pi * d i * (tn i - CA i) \<noteq> 0" "pi * (d i)\<^sup>2 * (tn i - CA i) \<noteq> 0"
    by simp_all
  let ?l = "\<lparr>axial = Fz i / (pi * d i * (tn i - CA i)),
            bending = 4 * sqrt ((Mx i)\<^sup>2 + (My i)\<^sup>2) / (pi * (d i)\<^sup>2 * (tn i - CA i)),
            shear = sqrt ((Fx i)\<^sup>2 + (Fy i)\<^sup>2) / (pi * d i * (tn i - CA i)),
            equivalent = sqrt ((Fz i / (pi * d i * (tn i - CA i))
                + 4 * sqrt ((Mx i)\<^sup>2 + (My i)\<^sup>2) / (pi * (d i)\<^sup>2 * (tn i - CA i)))\<^sup>2
                + 3 * (sqrt ((Fx i)\<^sup>2 + (Fy i)\<^sup>2) / (pi * d i * (tn i - CA i)))\<^sup>2),
            allowable = S_nozzle i * ALLOWABLE_STRESS_FACTOR,
            loads_section.status = (sqrt ((Fz i / (pi * d i * (tn i - CA i))
                + 4 * sqrt ((Mx i)\<^sup>2 + (My i)\<^sup>2) / (pi * (d i)\<^sup>2 * (tn i - CA i)))\<^sup>2
                + 3 * (sqrt ((Fx i)\<^sup>2 + (Fy i)\<^sup>2) / (pi * d i * (tn i - CA i)))\<^sup>2)
              \<le> S_nozzle i * ALLOWABLE_STRESS_FACTOR)\<rparr>"
  have body: "load_try i = Inr ?l"
    using nz unfolding load_try_def py_div_def Let_def by simp
  then have run: "perform_load_analysis i = Inr ?l"
    by (simp add: perform_load_analysis_def)
  have mz: "\<forall>z. perform_load_analysis (i\<lparr>Mz := z\<rparr>) = perform_load_analysis i"
    by (simp add: perform_load_analysis_def load_try_def Let_def cong: sum.case_cong)
  have zero: "Fx i = 0 \<and> Fy i = 0 \<and> Fz i = 0 \<and> Mx i = 0 \<and> My i = 0 \<and> Mz i = 0 \<longrightarrow>
      equivalent ?l = 0 \<and> loads_section.status ?l = (0 \<le> S_nozzle i)"
    by (simp add: ALLOWABLE_STRESS_FACTOR_def zero_le_mult_iff)
  have fields: "axial ?l = Fz i / (pi * d i * (tn i - CA i))"
    "bending ?l = 4 * sqrt ((Mx i)\<^sup>2 + (My i)\<^sup>2) / (pi * (d i)\<^sup>2 * (tn i - CA i))"
    "shear ?l = sqrt ((Fx i)\<^sup>2 + (Fy i)\<^sup>2) / (pi * d i * (tn i - CA i))"
    "equivalent ?l = sqrt ((axial ?l + bending ?l)\<^sup>2 + 3 * (shear ?l)\<^sup>2)"
    "allowable ?l = 1.5 * S_nozzle i"
    "loads_section.status ?l = (equivalent ?l \<le> allowable ?l)"
    by (simp_all add: ALLOWABLE_STRESS_FACTOR_def)
  from run fields mz zero show ?thesis
    by blast
qed

theorem load_analysis_formulas_witness:
  "\<exists>l. perform_load_analysis example_inputs = Inr l
     \<and> axial l = 0 \<and> bending l = 0 \<and> shear l = 0 \<and> equivalent l = 0
     \<and> allowable l = 177 \<and> loads_section.status l"
proof -
  have "d example_inputs > 0" "tn example_inputs - CA example_inputs > 0"
    by (simp_all add: example_inputs_def)
  from load_analysis_formulas [OF this] obtain l where
    "perform_load_analysis example_inputs = Inr l"
    "axial l = Fz example_inputs / (pi * d example_inputs * (tn example_inputs - CA example_inputs))"
    "bending l = 4 * sqrt ((Mx example_inputs)\<^sup>2 + (My example_inputs)\<^sup>2) /
       (pi * (d example_inputs)\<^sup>2 * (tn example_inputs - CA example_inputs))"
    "shear l = sqrt ((Fx example_inputs)\<^sup>2 + (Fy example_inputs)\<^sup>2) /
       (pi * d example_inputs * (tn example_inputs - CA example_inputs))"
    "allowable l = 1.5 * S_nozzle example_inputs"
    "Fx example_inputs = 0 \<and> Fy example_inputs = 0 \<and> Fz example_inputs = 0
       \<and> Mx example_inputs = 0 \<and> My example_inputs = 0 \<and> Mz example_inputs = 0 \<longrightarrow>
     equivalent l = 0 \<and> loads_section.status l = (0 \<le> S_nozzle example_inputs)"
    by blast
  then have "perform_load_analysis example_inputs = Inr l
     \<and> axial l = 0 \<and> bending l = 0 \<and> shear l = 0 \<and> equivalent l = 0
     \<and> allowable l = 177 \<and> loads_section.status l"
    by (simp add: example_inputs_def)
  then show ?thesis ..
qed

text \<open>
  With a negative nozzle allowable stress the limit is negative, and the pass flag is
  false although all six load components are zero and the equivalent stress is 0.
\<close>

theorem zero_loads_negative_allowable:
  "0 < d (example_inputs\<lparr>S_nozzle := - 1\<rparr>)
   \<and> 0 < tn (example_inputs\<lparr>S_nozzle := - 1\<rparr>) - CA (example_inputs\<lparr>S_nozzle := - 1\<rparr>)
   \<and> perform_load_analysis (example_inputs\<lparr>S_nozzle := - 1\<rparr>) =
       Inr \<lparr>axial = 0, bending = 0, shear = 0, equivalent = 0, allowable = - 1.5,
            loads_section.status = False\<rparr>"
  by (simp add: perform_load_analysis_def load_try_def py_div_def Let_def example_inputs_def
      ALLOWABLE_STRESS_FACTOR_def)

subsection \<open>The reinforcement check against the pipe table\<close>

lemma first_index_unique:
  assumes "P (xs ! k)" and "\<forall>j<k. \<not> P (xs ! j)"
    and "P (xs ! k')" and "\<forall>j<k'. \<not> P (xs ! j)"
  shows "k = (k' :: nat)"
  using assms by (meson linorder_neqE_nat)

lemma prefix_below:
  assumes "\<forall>row\<in>set (take k xs). P row" and "k \<le> length xs"
  shows "\<forall>j<k. P (xs ! j)"
proof (intro allI impI)
  fix j assume j: "j < k"
  with assms(2) have "take k xs ! j \<in> set (take k xs)"
    by (intro nth_mem) simp
  with j assms(1) show "P (xs ! j)"
    by simp
qed

lemma largest_reached:
  assumes "target \<le> Max (od_of ` set UG45_TABLE)"
  shows "\<exists>row\<in>set sorted_table. od_of row \<ge> target"
proof -
  have "Max (od_of ` set UG45_TABLE) \<in> od_of ` set UG45_TABLE"
    by (intro Max_in) (simp_all add: UG45_TABLE_def)
  with assms show ?thesis
    unfolding sorted_table_eq by auto
qed

lemma largest_exceeded:
  assumes "target > Max (od_of ` set UG45_TABLE)"
  shows "\<forall>row\<in>set sorted_table. od_of row < target"
proof
  fix row assume "row \<in> set sorted_table"
  then have "od_of row \<le> Max (od_of ` set UG45_TABLE)"
    unfolding sorted_table_eq by (intro Max_ge) simp_all
  with assms show "od_of row < target"
    by simp
qed

text \<open>
  Claim C7, as amended. For every complete input on which the three thickness formulas
  return and whose target nozzle outer diameter is at most the largest outer diameter of
  the table, the scan goes through the table in ascending order of outer diameter and
  stops at the first entry whose outer diameter is at least the target; the table-required
  thickness is that entry's standard wall thickness plus the corrosion allowance; the
  reinforcement-required thickness is the maximum of the nozzle thickness of the formula
  and the table-required thickness; and the reinforcement check passes iff the nominal
  nozzle thickness \<open>tn\<close> (not corroded) is at least that maximum. The same holds of the
  reinforcement step from every report that holds the nozzle thickness of the formula.
\<close>

theorem ug45_first_match:
  assumes "read_inputs m = Some i" and "thickness_ok i"
    and "nozzle_od i \<le> Max (od_of ` set UG45_TABLE)"
  shows "sorted (map od_of sorted_table) \<and> set sorted_table = set UG45_TABLE
    \<and> (\<exists>rep k. calculate_asme_compliance m = Some rep
       \<and> k < length sorted_table
       \<and> nozzle_od i \<le> od_of (sorted_table ! k)
       \<and> (\<forall>j<k. od_of (sorted_table ! j) < nozzle_od i)
       \<and> calculations rep ''nozzle'' =
           Some \<lparr>required = P_int i * d i / nozzle_den i, actual = tn i - CA i\<rparr>
       \<and> ug45 rep = Some
           \<lparr>required = max (P_int i * d i / nozzle_den i) (thickness_of (sorted_table ! k) + CA i),
            actual = tn i,
            check.status =
              (tn i \<ge> max (P_int i * d i / nozzle_den i) (thickness_of (sorted_table ! k) + CA i)),
            matched_size = ''NPS '' @ nps_of (sorted_table ! k)\<rparr>
       \<and> (\<forall>r c. calculations r ''nozzle'' = Some c \<longrightarrow>
            ug45_step i r = Inr (r\<lparr>ug45 := Some
              \<lparr>required = max (required c) (thickness_of (sorted_table ! k) + CA i),
               actual = tn i,
               check.status = (tn i \<ge> max (required c) (thickness_of (sorted_table ! k) + CA i)),
               matched_size = ''NPS '' @ nps_of (sorted_table ! k)\<rparr>\<rparr>)))"
proof -
  have run: "calculate_asme_compliance m = Some (compliance_steps i)"
    by (rule complete_run [OF assms(1)])
  from first_index [OF largest_reached [OF assms(3)]] obtain k where
    k: "k < length sorted_table" "nozzle_od i \<le> od_of (sorted_table ! k)"
    and "\<forall>j<k. \<not> nozzle_od i \<le> od_of (sorted_table ! j)"
    by blast
  then have below: "\<forall>j<k. od_of (sorted_table ! j) < nozzle_od i"
    by (simp add: not_le)
  from report_thickness_ok [OF assms(2)]
  have "calculations (compliance_steps i) = calculations_of i"
    by blast
  then have calc: "calculations (compliance_steps i) ''nozzle'' =
      Some \<lparr>required = P_int i * d i / nozzle_den i, actual = tn i - CA i\<rparr>"
    by (simp add: calculations_of_nozzle)
  note rep = report_ug45_found [OF assms(2) k below]
  have step: "\<forall>r c. calculations r ''nozzle'' = Some c \<longrightarrow>
            ug45_step i r = Inr (r\<lparr>ug45 := Some
              \<lparr>required = max (required c) (thickness_of (sorted_table ! k) + CA i),
               actual = tn i,
               check.status = (tn i \<ge> max (required c) (thickness_of (sorted_table ! k) + CA i)),
               matched_size = ''NPS '' @ nps_of (sorted_table ! k)\<rparr>\<rparr>)"
    using ug45_step_found [OF _ k below] by blast
  have "set sorted_table = set UG45_TABLE"
    by (simp add: sorted_table_eq)
  with table_sorted run k below calc rep step show ?thesis
    by blast
qed

theorem ug45_first_match_witness:
  "\<exists>rep. calculate_asme_compliance (dict_of example_inputs) = Some rep
     \<and> ug45 rep = Some \<lparr>required = 6.77, actual = 10, check.status = True,
                         matched_size = ''NPS 4''\<rparr>"
proof -
  have ok: "thickness_ok example_inputs"
    by (simp add: condition_eval)
  have le: "nozzle_od example_inputs \<le> Max (od_of ` set UG45_TABLE)"
    by (simp add: table_largest example_inputs_def)
  from ug45_first_match [OF read_dict_of ok le] obtain rep k where
    rep: "calculate_asme_compliance (dict_of example_inputs) = Some rep"
    and k: "nozzle_od example_inputs \<le> od_of (sorted_table ! k)"
      "\<forall>j<k. od_of (sorted_table ! j) < nozzle_od example_inputs"
    and n: "ug45 rep = Some
           \<lparr>required = max (P_int example_inputs * d example_inputs / nozzle_den example_inputs)
                          (thickness_of (sorted_table ! k) + CA example_inputs),
            actual = tn example_inputs,
            check.status =
              (tn example_inputs \<ge>
                 max (P_int example_inputs * d example_inputs / nozzle_den example_inputs)
                   (thickness_of (sorted_table ! k) + CA example_inputs)),
            matched_size = ''NPS '' @ nps_of (sorted_table ! k)\<rparr>"
    by blast
  have "\<forall>row\<in>set (take 12 sorted_table). od_of row < nozzle_od example_inputs"
    by (simp add: sorted_table_eq UG45_TABLE_def od_of_def example_inputs_def)
  then have "\<forall>j<12. od_of (sorted_table ! j) < nozzle_od example_inputs"
    by (rule prefix_below) (simp add: sorted_table_eq UG45_TABLE_def)
  then have b12: "\<forall>j<12. \<not> nozzle_od example_inputs \<le> od_of (sorted_table ! j)"
    by (simp add: not_le)
  have a12: "nozzle_od example_inputs \<le> od_of (sorted_table ! 12)"
    by (simp add: sorted_table_eq UG45_TABLE_def od_of_def example_inputs_def)
  from k(2) have bk: "\<forall>j<k. \<not> nozzle_od example_inputs \<le> od_of (sorted_table ! j)"
    by (simp add: not_le)
  have "k = 12"
    by (rule first_index_unique
        [of "\<lambda>row. nozzle_od example_inputs \<le> od_of row", OF k(1) bk a12 b12])
  with n have "ug45 rep = Some \<lparr>required = 6.77, actual = 10, check.status = True,
                         matched_size = ''NPS 4''\<rparr>"
    by (simp add: sorted_table_eq UG45_TABLE_def thickness_of_def nps_of_def nozzle_den_def
        example_inputs_def)
  with rep show ?thesis
    by blast
qed

text \<open>
  With an input whose head formula divides by zero (\<open>P = 100\<close>, \<open>S = 10\<close>, \<open>E = 1\<close>,
  Ellipsoidal) the evaluation ends before the scan of the table: the report has no
  reinforcement section, although the target 114.3 is in the range of the table.
\<close>

theorem reinforcement_not_reached:
  "nozzle_od (example_inputs\<lparr>P_int := 100, S_head := 10\<rparr>) \<le> Max (od_of ` set UG45_TABLE)
   \<and> calculate_asme_compliance (dict_of (example_inputs\<lparr>P_int := 100, S_head := 10\<rparr>)) =
       Some (compliance_steps (example_inputs\<lparr>P_int := 100, S_head := 10\<rparr>))
   \<and> ug45 (compliance_steps (example_inputs\<lparr>P_int := 100, S_head := 10\<rparr>)) = None"
proof -
  have "nozzle_od (example_inputs\<lparr>P_int := 100, S_head := 10\<rparr>) \<le> Max (od_of ` set UG45_TABLE)"
    by (simp add: table_largest example_inputs_def)
  moreover have "ug45 (compliance_steps (example_inputs\<lparr>P_int := 100, S_head := 10\<rparr>)) = None"
    by (simp add: report_eval)
  ultimately show ?thesis
    using complete_run [OF read_dict_of] by blast
qed

text \<open>
  Claim C6. An input whose target outer diameter, 400, exceeds every outer diameter of
  the table: the table-required thickness is the last entry's 8.34 plus the corrosion
  allowance 1.5, nothing is raised, and the label of the matched size is \<open>NPS 12\<close>, the
  label of the last entry scanned, not the fallback label \<open>NPS 12+\<close>.
\<close>

theorem oversize_nozzle_label:
  "Max (od_of ` set UG45_TABLE) < nozzle_od (example_inputs\<lparr>nozzle_od := 400\<rparr>)
   \<and> calculate_asme_compliance (dict_of (example_inputs\<lparr>nozzle_od := 400\<rparr>)) =
       Some (compliance_steps (example_inputs\<lparr>nozzle_od := 400\<rparr>))
   \<and> errors (compliance_steps (example_inputs\<lparr>nozzle_od := 400\<rparr>)) = []
   \<and> ug45 (compliance_steps (example_inputs\<lparr>nozzle_od := 400\<rparr>)) =
       Some \<lparr>required = 9.84, actual = 10, check.status = True, matched_size = ''NPS 12''\<rparr>"
proof -
  have "Max (od_of ` set UG45_TABLE) < nozzle_od (example_inputs\<lparr>nozzle_od := 400\<rparr>)"
    by (simp add: table_largest)
  moreover have "errors (compliance_steps (example_inputs\<lparr>nozzle_od := 400\<rparr>)) = []"
    by (simp add: report_eval)
  moreover have "ug45 (compliance_steps (example_inputs\<lparr>nozzle_od := 400\<rparr>)) =
       Some \<lparr>required = 9.84, actual = 10, check.status = True, matched_size = ''NPS 12''\<rparr>"
    by (simp add: report_eval)
  ultimately show ?thesis
    using complete_run [OF read_dict_of] by blast
qed

subsection \<open>Errors of the thickness formulas\<close>




text \<open>
  Claim C3, as amended. For every complete input where a thickness formula divides by a
  denominator that is exactly zero, the evaluation ends with a calculation error in the
  report's error list and without an overall verdict. A denominator that is not zero
  raises nothing, negative or not: when the head type is known and no denominator is
  zero, the thickness section holds the three quotients whatever their sign, and when no
  analyser fails either, the error list is empty and an overall verdict is written.
\<close>

theorem degenerate_formula:
  assumes "read_inputs m = Some i"
  shows "\<exists>rep. calculate_asme_compliance m = Some rep
     \<and> (shell_den i = 0 \<or> head_den i = Some 0 \<or> nozzle_den i = 0 \<longrightarrow>
          errors rep \<noteq> [] \<and> compliant rep = None)
     \<and> (head_den i \<noteq> None \<and> \<not> thickness_ok i \<longrightarrow>
          errors rep = [''Calculation error: '' @ str_exn ZeroDivisionError])
     \<and> (thickness_ok i \<longrightarrow>
          calculations rep ''shell'' =
            Some \<lparr>required = P_int i * D i / shell_den i, actual = t i - CA i\<rparr>
        \<and> calculations rep ''head'' =
            Some \<lparr>required = head_required i, actual = th_head i - CA i\<rparr>
        \<and> calculations rep ''nozzle'' =
            Some \<lparr>required = P_int i * d i / nozzle_den i, actual = tn i - CA i\<rparr>)
     \<and> (thickness_ok i \<and> stress_ok i \<and> load_ok i \<longrightarrow>
          errors rep = [] \<and> compliant rep \<noteq> None)"
proof -
  have run: "calculate_asme_compliance m = Some (compliance_steps i)"
    by (rule complete_run [OF assms])
  have zero: "shell_den i = 0 \<or> head_den i = Some 0 \<or> nozzle_den i = 0 \<longrightarrow>
      errors (compliance_steps i) \<noteq> [] \<and> compliant (compliance_steps i) = None"
  proof
    assume "shell_den i = 0 \<or> head_den i = Some 0 \<or> nozzle_den i = 0"
    then have "\<not> thickness_ok i"
      by (auto simp: thickness_ok_def)
    from report_thickness_fail(1,8) [OF this]
    show "errors (compliance_steps i) \<noteq> [] \<and> compliant (compliance_steps i) = None"
      by simp
  qed
  have msg: "head_den i \<noteq> None \<and> \<not> thickness_ok i \<longrightarrow>
      errors (compliance_steps i) = [''Calculation error: '' @ str_exn ZeroDivisionError]"
    using report_thickness_fail(1) [of i] by auto
  have stored: "thickness_ok i \<longrightarrow>
          calculations (compliance_steps i) ''shell'' =
            Some \<lparr>required = P_int i * D i / shell_den i, actual = t i - CA i\<rparr>
        \<and> calculations (compliance_steps i) ''head'' =
            Some \<lparr>required = head_required i, actual = th_head i - CA i\<rparr>
        \<and> calculations (compliance_steps i) ''nozzle'' =
            Some \<lparr>required = P_int i * d i / nozzle_den i, actual = tn i - CA i\<rparr>"
  proof
    assume "thickness_ok i"
    from report_thickness_ok [OF this]
    have "calculations (compliance_steps i) = calculations_of i"
      by blast
    then show "calculations (compliance_steps i) ''shell'' =
            Some \<lparr>required = P_int i * D i / shell_den i, actual = t i - CA i\<rparr>
        \<and> calculations (compliance_steps i) ''head'' =
            Some \<lparr>required = head_required i, actual = th_head i - CA i\<rparr>
        \<and> calculations (compliance_steps i) ''nozzle'' =
            Some \<lparr>required = P_int i * d i / nozzle_den i, actual = tn i - CA i\<rparr>"
      by (simp add: calculations_of_def)
  qed
  have clean: "thickness_ok i \<and> stress_ok i \<and> load_ok i \<longrightarrow>
      errors (compliance_steps i) = [] \<and> compliant (compliance_steps i) \<noteq> None"
    using report_ok [of i] by auto
  from run zero msg stored clean show ?thesis
    by blast
qed

theorem degenerate_formula_witness:
  "(\<exists>rep. calculate_asme_compliance (dict_of (example_inputs\<lparr>P_int := 100, S_head := 10\<rparr>)) =
        Some rep
      \<and> errors rep = [''Calculation error: float division by zero'']
      \<and> compliant rep = None)
   \<and> (\<exists>rep. calculate_asme_compliance
          (dict_of (example_inputs\<lparr>D := 50, t := 61.5, S_shell := 10, E_shell := 0.1\<rparr>)) = Some rep
      \<and> calculations rep ''shell'' = Some \<lparr>required = - 250, actual = 60\<rparr>
      \<and> errors rep = [] \<and> compliant rep \<noteq> None)"
proof -
  let ?a = "example_inputs\<lparr>P_int := 100, S_head := 10\<rparr>"
  let ?b = "example_inputs\<lparr>D := 50, t := 61.5, S_shell := 10, E_shell := 0.1\<rparr>"
  have a: "head_den ?a \<noteq> None \<and> \<not> thickness_ok ?a"
    "shell_den ?a = 0 \<or> head_den ?a = Some 0 \<or> nozzle_den ?a = 0"
    by (simp_all add: condition_eval)
  have b: "thickness_ok ?b" "thickness_ok ?b \<and> stress_ok ?b \<and> load_ok ?b"
    by (simp_all add: condition_eval)
  from degenerate_formula [OF read_dict_of, of ?a] a
  have "\<exists>rep. calculate_asme_compliance (dict_of ?a) = Some rep
      \<and> errors rep = [''Calculation error: float division by zero'']
      \<and> compliant rep = None"
    by auto
  moreover from degenerate_formula [OF read_dict_of, of ?b] b
  have "\<exists>rep. calculate_asme_compliance (dict_of ?b) = Some rep
      \<and> calculations rep ''shell'' = Some \<lparr>required = - 250, actual = 60\<rparr>
      \<and> errors rep = [] \<and> compliant rep \<noteq> None"
    by (auto simp: shell_den_def example_inputs_def)
  ultimately show ?thesis
    by blast
qed

text \<open>
  A negative denominator is not detected. With \<open>P = 2\<close>, \<open>S = 10\<close> and \<open>E = 0.1\<close> for
  the shell (values the form accepts) the denominator of the shell formula is \<open>-0.4\<close>;
  the required shell thickness is stored as \<open>-250\<close>, the error list is empty and the
  overall verdict is that the design complies.
\<close>

theorem negative_denominator_silent:
  "shell_den (example_inputs\<lparr>D := 50, t := 61.5, S_shell := 10, E_shell := 0.1\<rparr>) < 0
   \<and> calculate_asme_compliance
        (dict_of (example_inputs\<lparr>D := 50, t := 61.5, S_shell := 10, E_shell := 0.1\<rparr>)) =
      Some (compliance_steps (example_inputs\<lparr>D := 50, t := 61.5, S_shell := 10, E_shell := 0.1\<rparr>))
   \<and> errors (compliance_steps
        (example_inputs\<lparr>D := 50, t := 61.5, S_shell := 10, E_shell := 0.1\<rparr>)) = []
   \<and> calculations (compliance_steps
        (example_inputs\<lparr>D := 50, t := 61.5, S_shell := 10, E_shell := 0.1\<rparr>)) ''shell'' =
      Some \<lparr>required = - 250, actual = 60\<rparr>
   \<and> compliant (compliance_steps
        (example_inputs\<lparr>D := 50, t := 61.5, S_shell := 10, E_shell := 0.1\<rparr>)) = Some True"
proof -
  let ?b = "example_inputs\<lparr>D := 50, t := 61.5, S_shell := 10, E_shell := 0.1\<rparr>"
  have "shell_den ?b < 0"
    by (simp add: condition_eval)
  moreover have "errors (compliance_steps ?b) = []"
    by (simp add: report_eval)
  moreover have "calculations (compliance_steps ?b) ''shell'' =
      Some \<lparr>required = - 250, actual = 60\<rparr>"
    by (simp add: report_eval)
  moreover have "compliant (compliance_steps ?b) = Some True"
    by (simp add: report_eval)
  ultimately show ?thesis
    using complete_run [OF read_dict_of, of ?b] by blast
qed

subsection \<open>The stress analyser\<close>

text \<open>
  Claim C4, as amended. For every complete input where a corroded thickness
  (\<open>t - CA\<close>, \<open>th_head - CA\<close> or \<open>tn - CA\<close>) is exactly zero, the computation of
  the stress analyser raises a division error, the report's error list is not empty and
  the report holds no stress for that component. Where no divisor is zero
  the analyser returns the three stresses \<open>P (D / 2) / ((t - CA) E_shell)\<close>,
  \<open>P D / (4 (th_head - CA) E_head)\<close> and \<open>P (d / 2) / ((tn - CA) E_nozzle)\<close>
  whatever the sign of the corroded thickness, and when the thickness formulas return
  the report holds them; a negative corroded thickness adds no error.
\<close>

theorem stress_analysis_divisors:
  assumes "read_inputs m = Some i"
  shows "(t i - CA i = 0 \<or> th_head i - CA i = 0 \<or> tn i - CA i = 0 \<longrightarrow>
            stress_try i = Inl ZeroDivisionError)
     \<and> (stress_ok i \<longrightarrow>
          (\<exists>s. perform_stress_analysis i = Inr s
             \<and> s ''shell'' = Some (P_int i * (D i / 2) / ((t i - CA i) * E_shell i))
             \<and> s ''head'' = Some (P_int i * D i / (4 * (th_head i - CA i) * E_head i))
             \<and> s ''nozzle'' = Some (P_int i * (d i / 2) / ((tn i - CA i) * E_nozzle i))))
     \<and> (\<exists>rep. calculate_asme_compliance m = Some rep
          \<and> (t i - CA i = 0 \<or> th_head i - CA i = 0 \<or> tn i - CA i = 0 \<longrightarrow> errors rep \<noteq> [])
          \<and> (t i - CA i = 0 \<longrightarrow> stresses rep ''shell'' = None)
          \<and> (th_head i - CA i = 0 \<longrightarrow> stresses rep ''head'' = None)
          \<and> (tn i - CA i = 0 \<longrightarrow> stresses rep ''nozzle'' = None)
          \<and> (thickness_ok i \<and> stress_ok i \<longrightarrow>
                stresses rep ''shell'' =
                  Some (P_int i * (D i / 2) / ((t i - CA i) * E_shell i))
              \<and> stresses rep ''head'' =
                  Some (P_int i * D i / (4 * (th_head i - CA i) * E_head i))
              \<and> stresses rep ''nozzle'' =
                  Some (P_int i * (d i / 2) / ((tn i - CA i) * E_nozzle i)))
          \<and> (thickness_ok i \<and> stress_ok i \<and> load_ok i \<longrightarrow> errors rep = []))"
proof (intro conjI)
  have zero: "t i - CA i = 0 \<or> th_head i - CA i = 0 \<or> tn i - CA i = 0 \<Longrightarrow> \<not> stress_ok i"
    by (auto simp: stress_ok_def)
  show "t i - CA i = 0 \<or> th_head i - CA i = 0 \<or> tn i - CA i = 0 \<longrightarrow>
      stress_try i = Inl ZeroDivisionError"
    using zero by (simp add: stress_try_eq)
  show "stress_ok i \<longrightarrow>
          (\<exists>s. perform_stress_analysis i = Inr s
             \<and> s ''shell'' = Some (P_int i * (D i / 2) / ((t i - CA i) * E_shell i))
             \<and> s ''head'' = Some (P_int i * D i / (4 * (th_head i - CA i) * E_head i))
             \<and> s ''nozzle'' = Some (P_int i * (d i / 2) / ((tn i - CA i) * E_nozzle i)))"
  proof
    assume "stress_ok i"
    then have "perform_stress_analysis i = Inr (stresses_of i)"
      by (simp add: perform_stress_analysis_def stress_try_eq)
    with stresses_of_keys [of i] show "\<exists>s. perform_stress_analysis i = Inr s
             \<and> s ''shell'' = Some (P_int i * (D i / 2) / ((t i - CA i) * E_shell i))
             \<and> s ''head'' = Some (P_int i * D i / (4 * (th_head i - CA i) * E_head i))
             \<and> s ''nozzle'' = Some (P_int i * (d i / 2) / ((tn i - CA i) * E_nozzle i))"
      by (intro exI [of _ "stresses_of i"]) simp
  qed
  have run: "calculate_asme_compliance m = Some (compliance_steps i)"
    by (rule complete_run [OF assms])
  have none: "errors (compliance_steps i) \<noteq> [] \<and> stresses (compliance_steps i) = Map.empty"
    if "\<not> stress_ok i"
  proof (cases "thickness_ok i")
    case True
    from report_stress_fail(1,2) [OF True that] show ?thesis
      by simp
  next
    case False
    from report_thickness_fail(1,6) [OF False] show ?thesis
      by simp
  qed
  have err: "t i - CA i = 0 \<or> th_head i - CA i = 0 \<or> tn i - CA i = 0 \<longrightarrow>
      errors (compliance_steps i) \<noteq> []"
    using zero none by blast
  have s1: "t i - CA i = 0 \<longrightarrow> stresses (compliance_steps i) ''shell'' = None"
    using zero none by simp
  have s2: "th_head i - CA i = 0 \<longrightarrow> stresses (compliance_steps i) ''head'' = None"
    using zero none by simp
  have s3: "tn i - CA i = 0 \<longrightarrow> stresses (compliance_steps i) ''nozzle'' = None"
    using zero none by simp
  have stored: "thickness_ok i \<and> stress_ok i \<longrightarrow>
      stresses (compliance_steps i) ''shell'' =
        Some (P_int i * (D i / 2) / ((t i - CA i) * E_shell i))
    \<and> stresses (compliance_steps i) ''head'' =
        Some (P_int i * D i / (4 * (th_head i - CA i) * E_head i))
    \<and> stresses (compliance_steps i) ''nozzle'' =
        Some (P_int i * (d i / 2) / ((tn i - CA i) * E_nozzle i))"
  proof
    assume a: "thickness_ok i \<and> stress_ok i"
    have "stresses (compliance_steps i) = stresses_of i"
    proof (cases "load_ok i")
      case True
      with a report_ok [of i] show ?thesis by auto
    next
      case False
      with a report_load_fail(2) [of i] show ?thesis by simp
    qed
    then show "stresses (compliance_steps i) ''shell'' =
        Some (P_int i * (D i / 2) / ((t i - CA i) * E_shell i))
      \<and> stresses (compliance_steps i) ''head'' =
        Some (P_int i * D i / (4 * (th_head i - CA i) * E_head i))
      \<and> stresses (compliance_steps i) ''nozzle'' =
        Some (P_int i * (d i / 2) / ((tn i - CA i) * E_nozzle i))"
      by (simp add: stresses_of_keys)
  qed
  have clean: "thickness_ok i \<and> stress_ok i \<and> load_ok i \<longrightarrow> errors (compliance_steps i) = []"
    using report_ok [of i] by auto
  show "\<exists>rep. calculate_asme_compliance m = Some rep
          \<and> (t i - CA i = 0 \<or> th_head i - CA i = 0 \<or> tn i - CA i = 0 \<longrightarrow> errors rep \<noteq> [])
          \<and> (t i - CA i = 0 \<longrightarrow> stresses rep ''shell'' = None)
          \<and> (th_head i - CA i = 0 \<longrightarrow> stresses rep ''head'' = None)
          \<and> (tn i - CA i = 0 \<longrightarrow> stresses rep ''nozzle'' = None)
          \<and> (thickness_ok i \<and> stress_ok i \<longrightarrow>
                stresses rep ''shell'' =
                  Some (P_int i * (D i / 2) / ((t i - CA i) * E_shell i))
              \<and> stresses rep ''head'' =
                  Some (P_int i * D i / (4 * (th_head i - CA i) * E_head i))
              \<and> stresses rep ''nozzle'' =
                  Some (P_int i * (d i / 2) / ((tn i - CA i) * E_nozzle i)))
          \<and> (thickness_ok i \<and> stress_ok i \<and> load_ok i \<longrightarrow> errors rep = [])"
    using run err s1 s2 s3 stored clean
    by (intro exI [of _ "compliance_steps i"]) (simp only: simp_thms)
qed

theorem stress_analysis_divisors_witness:
  "(\<exists>rep. calculate_asme_compliance (dict_of (example_inputs\<lparr>t := 1.5\<rparr>)) = Some rep
      \<and> errors rep \<noteq> [] \<and> stresses rep ''shell'' = None)
   \<and> (\<exists>rep. calculate_asme_compliance (dict_of (example_inputs\<lparr>t := 1\<rparr>)) = Some rep
      \<and> stresses rep ''shell'' = Some (- 2000) \<and> errors rep = [])"
proof -
  let ?a = "example_inputs\<lparr>t := 1.5\<rparr>"
  let ?b = "example_inputs\<lparr>t := 1\<rparr>"
  have a: "t ?a - CA ?a = 0"
    by (simp add: example_inputs_def)
  have b: "thickness_ok ?b \<and> stress_ok ?b" "thickness_ok ?b \<and> stress_ok ?b \<and> load_ok ?b"
    by (simp_all add: condition_eval)
  have v: "P_int ?b * (D ?b / 2) / ((t ?b - CA ?b) * E_shell ?b) = - 2000"
    by (simp add: example_inputs_def)
  from stress_analysis_divisors [OF read_dict_of, of ?a] obtain rep where
    "calculate_asme_compliance (dict_of ?a) = Some rep"
    "t ?a - CA ?a = 0 \<or> th_head ?a - CA ?a = 0 \<or> tn ?a - CA ?a = 0 \<longrightarrow> errors rep \<noteq> []"
    "t ?a - CA ?a = 0 \<longrightarrow> stresses rep ''shell'' = None"
    by blast
  with a have one: "\<exists>rep. calculate_asme_compliance (dict_of ?a) = Some rep
      \<and> errors rep \<noteq> [] \<and> stresses rep ''shell'' = None"
    by blast
  from stress_analysis_divisors [OF read_dict_of, of ?b] obtain rep where
    "calculate_asme_compliance (dict_of ?b) = Some rep"
    "thickness_ok ?b \<and> stress_ok ?b \<longrightarrow>
       stresses rep ''shell'' = Some (P_int ?b * (D ?b / 2) / ((t ?b - CA ?b) * E_shell ?b))"
    "thickness_ok ?b \<and> stress_ok ?b \<and> load_ok ?b \<longrightarrow> errors rep = []"
    by blast
  with b have "calculate_asme_compliance (dict_of ?b) = Some rep
      \<and> stresses rep ''shell'' = Some (P_int ?b * (D ?b / 2) / ((t ?b - CA ?b) * E_shell ?b))
      \<and> errors rep = []"
    by blast
  then have "calculate_asme_compliance (dict_of ?b) = Some rep
      \<and> stresses rep ''shell'' = Some (- 2000) \<and> errors rep = []"
    unfolding v .
  then have two: "\<exists>rep. calculate_asme_compliance (dict_of ?b) = Some rep
      \<and> stresses rep ''shell'' = Some (- 2000) \<and> errors rep = []"
    ..
  from one two show ?thesis
    by (rule conjI)
qed

text \<open>
  A negative corroded thickness is not detected. With \<open>t = 1\<close> and \<open>CA = 1.5\<close> (values
  the form accepts) the corroded shell thickness is \<open>-0.5\<close>; the shell stress is computed
  from it as \<open>-2000\<close> and the error list is empty.
\<close>

theorem negative_corroded_thickness_silent:
  "t (example_inputs\<lparr>t := 1\<rparr>) - CA (example_inputs\<lparr>t := 1\<rparr>) < 0
   \<and> calculate_asme_compliance (dict_of (example_inputs\<lparr>t := 1\<rparr>)) =
       Some (compliance_steps (example_inputs\<lparr>t := 1\<rparr>))
   \<and> errors (compliance_steps (example_inputs\<lparr>t := 1\<rparr>)) = []
   \<and> stresses (compliance_steps (example_inputs\<lparr>t := 1\<rparr>)) ''shell'' = Some (- 2000)
   \<and> compliant (compliance_steps (example_inputs\<lparr>t := 1\<rparr>)) = Some False"
proof -
  let ?b = "example_inputs\<lparr>t := 1\<rparr>"
  have "t ?b - CA ?b < 0"
    by (simp add: example_inputs_def)
  moreover have "errors (compliance_steps ?b) = []"
    by (simp add: report_eval)
  moreover have "stresses (compliance_steps ?b) ''shell'' = Some (- 2000)"
    by (simp add: report_eval)
  moreover have "compliant (compliance_steps ?b) = Some False"
    by (simp add: report_eval)
  ultimately show ?thesis
    using complete_run [OF read_dict_of, of ?b] by blast
qed

subsection \<open>The overall verdict\<close>

text \<open>
  Claim C1, as amended. For every complete input whose report has a load section, all
  intermediate sections are produced and the overall compliance boolean is the
  conjunction of the three minimum-thickness pass flags (shell, head, nozzle), the
  reinforcement pass flag, shell stress \<open>\<le>\<close> shell allowable stress, head stress \<open>\<le>\<close>
  head allowable stress, nozzle stress \<open>\<le>\<close> nozzle allowable stress, and the pass flag
  of the load section; the report has a load section whenever no formula and no analyser
  divides by zero and the head type is known. The aggregation is never true of a report
  without load section. When a thickness formula raises, the report has no load section
  and no overall boolean at all, neither true nor false, and its error list is not empty.
\<close>

theorem overall_compliance:
  assumes "read_inputs m = Some i"
  shows "\<exists>rep. calculate_asme_compliance m = Some rep
     \<and> (\<forall>l. loads rep = Some l \<longrightarrow>
          (\<exists>u n s1 s2 s3. ug16 rep = Some u \<and> ug45 rep = Some n
             \<and> stresses rep ''shell'' = Some s1 \<and> stresses rep ''head'' = Some s2
             \<and> stresses rep ''nozzle'' = Some s3
             \<and> compliant rep = Some
                 (check.status (shell u) \<and> check.status (ug16_section.head u)
                  \<and> check.status (nozzle u) \<and> check.status n
                  \<and> s1 \<le> S_shell i \<and> s2 \<le> S_head i \<and> s3 \<le> S_nozzle i
                  \<and> loads_section.status l)))
     \<and> (thickness_ok i \<and> stress_ok i \<and> load_ok i \<longrightarrow> loads rep \<noteq> None)
     \<and> (\<forall>r b. loads r = None \<and> final_compliance i r = Inr b \<longrightarrow> \<not> b)
     \<and> (\<not> thickness_ok i \<longrightarrow> loads rep = None \<and> compliant rep = None \<and> errors rep \<noteq> [])"
proof -
  have run: "calculate_asme_compliance m = Some (compliance_steps i)"
    by (rule complete_run [OF assms])
  have sections: "\<forall>l. loads (compliance_steps i) = Some l \<longrightarrow>
          (\<exists>u n s1 s2 s3. ug16 (compliance_steps i) = Some u \<and> ug45 (compliance_steps i) = Some n
             \<and> stresses (compliance_steps i) ''shell'' = Some s1
             \<and> stresses (compliance_steps i) ''head'' = Some s2
             \<and> stresses (compliance_steps i) ''nozzle'' = Some s3
             \<and> compliant (compliance_steps i) = Some
                 (check.status (shell u) \<and> check.status (ug16_section.head u)
                  \<and> check.status (nozzle u) \<and> check.status n
                  \<and> s1 \<le> S_shell i \<and> s2 \<le> S_head i \<and> s3 \<le> S_nozzle i
                  \<and> loads_section.status l))"
  proof (intro allI impI)
    fix l assume l: "loads (compliance_steps i) = Some l"
    have th: "thickness_ok i"
      using l report_thickness_fail(7) [of i] by (cases "thickness_ok i") simp_all
    have st: "stress_ok i"
      using l th report_stress_fail(3) [of i] by (cases "stress_ok i") simp_all
    have lo: "load_ok i"
      using l th st report_load_fail(3) [of i] by (cases "load_ok i") simp_all
    from report_ok [OF th st lo] obtain u n where
      un: "ug16 (compliance_steps i) = Some u" "ug45 (compliance_steps i) = Some n"
      and s: "stresses (compliance_steps i) = stresses_of i"
      and lv: "loads (compliance_steps i) = Some (projr (load_try i))"
      and c: "compliant (compliance_steps i) = Some
                (check.status (shell u) \<and> check.status (ug16_section.head u)
                 \<and> check.status (nozzle u) \<and> check.status n
                 \<and> P_int i * (D i / 2) / ((t i - CA i) * E_shell i) \<le> S_shell i
                 \<and> P_int i * D i / (4 * (th_head i - CA i) * E_head i) \<le> S_head i
                 \<and> P_int i * (d i / 2) / ((tn i - CA i) * E_nozzle i) \<le> S_nozzle i
                 \<and> loads_section.status (projr (load_try i)))"
      by blast
    from l lv have "projr (load_try i) = l"
      by simp
    with c have "compliant (compliance_steps i) = Some
                (check.status (shell u) \<and> check.status (ug16_section.head u)
                 \<and> check.status (nozzle u) \<and> check.status n
                 \<and> P_int i * (D i / 2) / ((t i - CA i) * E_shell i) \<le> S_shell i
                 \<and> P_int i * D i / (4 * (th_head i - CA i) * E_head i) \<le> S_head i
                 \<and> P_int i * (d i / 2) / ((tn i - CA i) * E_nozzle i) \<le> S_nozzle i
                 \<and> loads_section.status l)"
      by simp
    with un s stresses_of_keys [of i]
    show "\<exists>u n s1 s2 s3. ug16 (compliance_steps i) = Some u \<and> ug45 (compliance_steps i) = Some n
             \<and> stresses (compliance_steps i) ''shell'' = Some s1
             \<and> stresses (compliance_steps i) ''head'' = Some s2
             \<and> stresses (compliance_steps i) ''nozzle'' = Some s3
             \<and> compliant (compliance_steps i) = Some
                 (check.status (shell u) \<and> check.status (ug16_section.head u)
                  \<and> check.status (nozzle u) \<and> check.status n
                  \<and> s1 \<le> S_shell i \<and> s2 \<le> S_head i \<and> s3 \<le> S_nozzle i
                  \<and> loads_section.status l)"
      by (metis (no_types, lifting))
  qed
  have ok: "thickness_ok i \<and> stress_ok i \<and> load_ok i \<longrightarrow> loads (compliance_steps i) \<noteq> None"
    using report_ok [of i] by auto
  have agg: "\<forall>r b. loads r = None \<and> final_compliance i r = Inr b \<longrightarrow> \<not> b"
    by (auto simp: final_compliance_def split: option.splits)
  have fail: "\<not> thickness_ok i \<longrightarrow> loads (compliance_steps i) = None
      \<and> compliant (compliance_steps i) = None \<and> errors (compliance_steps i) \<noteq> []"
    using report_thickness_fail(1,7,8) [of i] by simp
  from run sections ok agg fail show ?thesis
    by blast
qed

theorem overall_compliance_witness:
  "(\<exists>rep u n l s1 s2 s3. calculate_asme_compliance (dict_of example_inputs) = Some rep
      \<and> ug16 rep = Some u \<and> ug45 rep = Some n \<and> loads rep = Some l
      \<and> stresses rep ''shell'' = Some s1 \<and> stresses rep ''head'' = Some s2
      \<and> stresses rep ''nozzle'' = Some s3
      \<and> compliant rep = Some
            (check.status (shell u) \<and> check.status (ug16_section.head u)
             \<and> check.status (nozzle u) \<and> check.status n
             \<and> s1 \<le> 138 \<and> s2 \<le> 138 \<and> s3 \<le> 118 \<and> loads_section.status l)
      \<and> compliant rep = Some True)
   \<and> (\<exists>rep. calculate_asme_compliance (dict_of (example_inputs\<lparr>P_int := 100, S_head := 10\<rparr>)) =
        Some rep
      \<and> loads rep = None \<and> compliant rep = None \<and> errors rep \<noteq> [])"
proof -
  let ?a = "example_inputs\<lparr>P_int := 100, S_head := 10\<rparr>"
  have ok: "thickness_ok example_inputs \<and> stress_ok example_inputs \<and> load_ok example_inputs"
    by (simp add: condition_eval)
  have a: "\<not> thickness_ok ?a"
    by (simp add: condition_eval)
  have s: "S_shell example_inputs = 138" "S_head example_inputs = 138"
    "S_nozzle example_inputs = 118"
    by (simp_all add: example_inputs_def)
  have v: "compliant (compliance_steps example_inputs) = Some True"
    by (simp add: report_eval)
  from overall_compliance [OF read_dict_of, of example_inputs] obtain rep where
    rep: "calculate_asme_compliance (dict_of example_inputs) = Some rep"
    and all: "\<forall>l. loads rep = Some l \<longrightarrow>
          (\<exists>u n s1 s2 s3. ug16 rep = Some u \<and> ug45 rep = Some n
             \<and> stresses rep ''shell'' = Some s1 \<and> stresses rep ''head'' = Some s2
             \<and> stresses rep ''nozzle'' = Some s3
             \<and> compliant rep = Some
                 (check.status (shell u) \<and> check.status (ug16_section.head u)
                  \<and> check.status (nozzle u) \<and> check.status n
                  \<and> s1 \<le> S_shell example_inputs \<and> s2 \<le> S_head example_inputs
                  \<and> s3 \<le> S_nozzle example_inputs
                  \<and> loads_section.status l))"
    and some: "thickness_ok example_inputs \<and> stress_ok example_inputs \<and> load_ok example_inputs
        \<longrightarrow> loads rep \<noteq> None"
    by blast
  from some ok obtain l where l: "loads rep = Some l"
    by blast
  from all l obtain u n s1 s2 s3 where
    secs: "ug16 rep = Some u" "ug45 rep = Some n"
      "stresses rep ''shell'' = Some s1" "stresses rep ''head'' = Some s2"
      "stresses rep ''nozzle'' = Some s3"
    and c: "compliant rep = Some
                 (check.status (shell u) \<and> check.status (ug16_section.head u)
                  \<and> check.status (nozzle u) \<and> check.status n
                  \<and> s1 \<le> S_shell example_inputs \<and> s2 \<le> S_head example_inputs
                  \<and> s3 \<le> S_nozzle example_inputs
                  \<and> loads_section.status l)"
    by blast
  from rep complete_run [OF read_dict_of, of example_inputs]
  have "rep = compliance_steps example_inputs"
    by simp
  with v have t: "compliant rep = Some True"
    by simp
  from c have c': "compliant rep = Some
            (check.status (shell u) \<and> check.status (ug16_section.head u)
             \<and> check.status (nozzle u) \<and> check.status n
             \<and> s1 \<le> 138 \<and> s2 \<le> 138 \<and> s3 \<le> 118 \<and> loads_section.status l)"
    unfolding s .
  from rep secs l c' t
  have one: "\<exists>rep u n l s1 s2 s3. calculate_asme_compliance (dict_of example_inputs) = Some rep
      \<and> ug16 rep = Some u \<and> ug45 rep = Some n \<and> loads rep = Some l
      \<and> stresses rep ''shell'' = Some s1 \<and> stresses rep ''head'' = Some s2
      \<and> stresses rep ''nozzle'' = Some s3
      \<and> compliant rep = Some
            (check.status (shell u) \<and> check.status (ug16_section.head u)
             \<and> check.status (nozzle u) \<and> check.status n
             \<and> s1 \<le> 138 \<and> s2 \<le> 138 \<and> s3 \<le> 118 \<and> loads_section.status l)
      \<and> compliant rep = Some True"
    by blast
  from overall_compliance [OF read_dict_of, of ?a] a
  have two: "\<exists>rep. calculate_asme_compliance (dict_of ?a) = Some rep
      \<and> loads rep = None \<and> compliant rep = None \<and> errors rep \<noteq> []"
    by blast
  from one two show ?thesis
    by (rule conjI)
qed

text \<open>
  With an input whose head formula divides by zero (\<open>P = 100\<close>, \<open>S = 10\<close>, \<open>E = 1\<close>,
  Ellipsoidal) the load section is absent because of the earlier failure, and the report
  has no overall boolean: it is not false.
\<close>

theorem no_verdict_after_failure:
  "calculate_asme_compliance (dict_of (example_inputs\<lparr>P_int := 100, S_head := 10\<rparr>)) =
       Some (compliance_steps (example_inputs\<lparr>P_int := 100, S_head := 10\<rparr>))
   \<and> loads (compliance_steps (example_inputs\<lparr>P_int := 100, S_head := 10\<rparr>)) = None
   \<and> compliant (compliance_steps (example_inputs\<lparr>P_int := 100, S_head := 10\<rparr>)) = None
   \<and> compliant (compliance_steps (example_inputs\<lparr>P_int := 100, S_head := 10\<rparr>)) \<noteq> Some False"
proof -
  let ?a = "example_inputs\<lparr>P_int := 100, S_head := 10\<rparr>"
  have "loads (compliance_steps ?a) = None"
    by (simp add: report_eval)
  moreover have "compliant (compliance_steps ?a) = None"
    by (simp add: report_eval)
  ultimately show ?thesis
    using complete_run [OF read_dict_of, of ?a] by simp
qed

end
